theory Spec2Isabelle
  imports Main "HOL-Library.Word"
begin

unbundle bit_operations_syntax

section \<open>The voice chat client\<close>

text \<open>
  A shallow embedding of the class \<open>VoiceChatClient\<close> and of the packet types of
  \<open>packet.proto\<close>. The private fields of the class are the fields of the record
  \<open>client\<close>. What the class does to its collaborators is recorded in three further
  fields, each a list in the order of the calls: \<open>wt\<close> holds the calls made on the
  WebTransport object and on its datagram writer, \<open>fired\<close> the callbacks of
  \<open>VoiceChatClientEvents\<close> that were invoked, \<open>console\<close> the lines written with
  \<open>console.warn\<close> and \<open>console.error\<close>.

  The protobuf routines \<open>toBinary\<close> and \<open>fromBinary\<close> belong to a library; they are a
  parameter of the model (the record \<open>codec\<close>), and \<open>fromBinary\<close> returning \<open>None\<close>
  stands for its exception. A promise of the transport that the code awaits is a boolean
  argument of the operation: \<open>True\<close> when it resolves, \<open>False\<close> when it rejects. A callback
  is an observer: it is taken to return normally. Every public operation returns the
  exception it ends with, if any, together with the state it leaves. An operation is one
  step: what other tasks do while it awaits the transport is not part of the model.
\<close>

subsection \<open>Packets and messages\<close>

type_synonym byte = "8 word"

type_synonym bytes = "byte list"

datatype PacketType =
    AUTH_REQUEST
  | AUTH_RESPONSE_SUCCESS
  | AUTH_RESPONSE_ERROR
  | JOIN_ROOM_REQUEST
  | JOIN_ROOM_RESPONSE
  | USER_JOINED
  | USER_LEFT

fun PacketType_value :: "PacketType \<Rightarrow> byte" where
  "PacketType_value AUTH_REQUEST = 0"
| "PacketType_value AUTH_RESPONSE_SUCCESS = 1"
| "PacketType_value AUTH_RESPONSE_ERROR = 2"
| "PacketType_value JOIN_ROOM_REQUEST = 3"
| "PacketType_value JOIN_ROOM_RESPONSE = 4"
| "PacketType_value USER_JOINED = 5"
| "PacketType_value USER_LEFT = 6"

text \<open>\<open>AuthRequest username token\<close> and \<open>JoinRoomRequest room_key\<close>, as in packet.proto.\<close>

datatype AuthRequest = AuthRequest string string

datatype JoinRoomRequest = JoinRoomRequest string

text \<open>The enum \<open>AuthResponseError.Type\<close>: a protobuf enum is read as a number.\<close>

type_synonym AuthResponseError_Type = int

text \<open>
  Modelled from the spec: the message \<open>RoomUser\<close> of common.proto, a file that is not among
  the sources. The spec gives it a session identifier and a display name. The client never
  looks inside a \<open>RoomUser\<close>.
\<close>

datatype RoomUser = RoomUser int string

datatype message = AuthRequestMessage AuthRequest | JoinRoomRequestMessage JoinRoomRequest

record codec =
  toBinary_AuthRequest :: "AuthRequest \<Rightarrow> bytes"
  toBinary_JoinRoomRequest :: "JoinRoomRequest \<Rightarrow> bytes"
  fromBinary_AuthResponseSuccess :: "bytes \<Rightarrow> int option"
  fromBinary_AuthResponseError :: "bytes \<Rightarrow> AuthResponseError_Type option"
  fromBinary_JoinRoomResponse :: "bytes \<Rightarrow> RoomUser list option"
  fromBinary_RoomUser :: "bytes \<Rightarrow> RoomUser option"

subsection \<open>State, callbacks and errors\<close>

text \<open>
  The exceptions of the class, by their messages: \<open>NotConnected\<close> is
  "Not connected to server", \<open>NotAuthenticated\<close> is "Not authenticated", \<open>NotInRoom\<close> is
  "Not in a room", \<open>WriterNotAvailable\<close> is "Datagram writer not available",
  \<open>InvalidPacketType\<close> is "Invalid packet type". \<open>Rejected\<close> is whatever the
  transport threw, or rejected an awaited promise with.
\<close>

datatype error =
    NotConnected
  | NotAuthenticated
  | NotInRoom
  | WriterNotAvailable
  | InvalidPacketType
  | Rejected

datatype read_loop = Datagrams | UnidirectionalStreams | BidirectionalStreams | StreamChunks

datatype connection_failure = ClosedAbruptly | FailedToEstablish | ErrorReading read_loop

datatype event =
    Connected
  | ConnectionError connection_failure
  | ConnectionClosed
  | AuthSuccess int
  | AuthError AuthResponseError_Type
  | JoinedRoom "RoomUser list"
  | UserJoined RoomUser
  | UserLeft int
  | VoiceData int bytes

text \<open>\<open>VoiceChatClientEvents\<close>: every callback is optional; a field says whether it was given.\<close>

record VoiceChatClientEvents =
  onConnected :: bool
  onConnectionError :: bool
  onConnectionClosed :: bool
  onAuthSuccess :: bool
  onAuthError :: bool
  onJoinedRoom :: bool
  onUserJoined :: bool
  onUserLeft :: bool
  onVoiceData :: bool

datatype transport_call = GetWriter | Write bytes | CloseWriter | CloseTransport

datatype console_line =
    UnknownPacketType byte
  | ErrorParsingAuthSuccess
  | ErrorParsingAuthError
  | ErrorParsingJoinRoom
  | ErrorParsingUserJoined

datatype writer = Writer

record client =
  datagramWriter :: "writer option"
  sessionId :: "int option"
  username :: "string option"
  currentRoomKey :: "string option"
  events :: VoiceChatClientEvents
  connected :: bool
  wt :: "transport_call list"
  fired :: "event list"
  console :: "console_line list"

text \<open>The state the constructor leaves.\<close>

definition new_client :: "VoiceChatClientEvents \<Rightarrow> client" where
  "new_client ev =
     \<lparr>datagramWriter = None, sessionId = None, username = None, currentRoomKey = None,
      events = ev, connected = False, wt = [], fired = [], console = []\<rparr>"

text \<open>\<open>if (this.events.onX) this.events.onX(...)\<close>\<close>

definition fire :: "bool \<Rightarrow> event \<Rightarrow> client \<Rightarrow> client" where
  "fire given e s = (if given then s\<lparr>fired := fired s @ [e]\<rparr> else s)"

text \<open>
  JavaScript's \<open>!x\<close> on the two nullable fields that the operations test: a bigint is falsy
  when it is null or \<open>0n\<close>, a string when it is null or empty.
\<close>

fun falsy_bigint :: "int option \<Rightarrow> bool" where
  "falsy_bigint None = True"
| "falsy_bigint (Some n) = (n = 0)"

fun falsy_string :: "string option \<Rightarrow> bool" where
  "falsy_string None = True"
| "falsy_string (Some k) = (k = [])"

subsection \<open>Sending\<close>

text \<open>\<open>await this.datagramWriter.write(packet)\<close>: the call is made; \<open>ack\<close> is its promise.\<close>

definition write_datagram :: "bool \<Rightarrow> bytes \<Rightarrow> client \<Rightarrow> error option \<times> client" where
  "write_datagram ack packet s =
     (if ack then None else Some Rejected, s\<lparr>wt := wt s @ [Write packet]\<rparr>)"

text \<open>
  \<open>sendProtobufMessage\<close>. Its type parameter admits the two request types only, each with
  its own message; every other pair ends in the \<open>default\<close> branch.
\<close>

fun sendProtobufMessage ::
  "codec \<Rightarrow> bool \<Rightarrow> PacketType \<Rightarrow> message \<Rightarrow> client \<Rightarrow> error option \<times> client" where
  "sendProtobufMessage c ack packetType msg s =
     (if datagramWriter s = None then (Some WriterNotAvailable, s)
      else
        (case (packetType, msg) of
           (AUTH_REQUEST, AuthRequestMessage m) \<Rightarrow>
             write_datagram ack (PacketType_value packetType # toBinary_AuthRequest c m) s
         | (JOIN_ROOM_REQUEST, JoinRoomRequestMessage m) \<Rightarrow>
             write_datagram ack (PacketType_value packetType # toBinary_JoinRoomRequest c m) s
         | _ \<Rightarrow> (Some InvalidPacketType, s)))"

definition authenticate :: "codec \<Rightarrow> bool \<Rightarrow> string \<Rightarrow> client \<Rightarrow> error option \<times> client" where
  "authenticate c ack name s =
     (if \<not> connected s then (Some NotConnected, s)
      else sendProtobufMessage c ack AUTH_REQUEST (AuthRequestMessage (AuthRequest name []))
             (s\<lparr>username := Some name\<rparr>))"

definition joinRoom :: "codec \<Rightarrow> bool \<Rightarrow> string \<Rightarrow> client \<Rightarrow> error option \<times> client" where
  "joinRoom c ack roomKey s =
     (if \<not> connected s then (Some NotConnected, s)
      else if falsy_bigint (sessionId s) then (Some NotAuthenticated, s)
      else sendProtobufMessage c ack JOIN_ROOM_REQUEST (JoinRoomRequestMessage (JoinRoomRequest roomKey))
             (s\<lparr>currentRoomKey := Some roomKey\<rparr>))"

definition leaveRoom :: "client \<Rightarrow> error option \<times> client" where
  "leaveRoom s =
     (if \<not> connected s then (Some NotConnected, s)
      else if falsy_bigint (sessionId s) then (Some NotAuthenticated, s)
      else if falsy_string (currentRoomKey s) then (Some NotInRoom, s)
      else (None, s\<lparr>currentRoomKey := None\<rparr>))"

definition sendVoiceData :: "bool \<Rightarrow> bytes \<Rightarrow> client \<Rightarrow> error option \<times> client" where
  "sendVoiceData ack data s =
     (if \<not> connected s then (Some NotConnected, s)
      else if falsy_bigint (sessionId s) then (Some NotAuthenticated, s)
      else if falsy_string (currentRoomKey s) then (Some NotInRoom, s)
      else if datagramWriter s = None then (Some WriterNotAvailable, s)
      else write_datagram ack (0xFF # data) s)"

subsection \<open>Connecting and closing\<close>

text \<open>
  \<open>connect\<close>: \<open>ready\<close> is the promise \<open>wt.ready\<close>, \<open>writable\<close> says whether
  \<open>getWriter()\<close> returns a writer (it throws on a locked stream). The \<open>catch\<close> block
  resets \<open>connected\<close>, reports, and throws again.
\<close>

definition connect :: "bool \<Rightarrow> bool \<Rightarrow> client \<Rightarrow> error option \<times> client" where
  "connect ready writable s =
     (if \<not> ready then
        (Some Rejected,
         fire (onConnectionError (events s)) (ConnectionError FailedToEstablish)
           (s\<lparr>connected := False\<rparr>))
      else if \<not> writable then
        (Some Rejected,
         fire (onConnectionError (events s)) (ConnectionError FailedToEstablish)
           (s\<lparr>connected := False, wt := wt s @ [GetWriter]\<rparr>))
      else
        (None,
         fire (onConnected (events s)) Connected
           (s\<lparr>connected := True, datagramWriter := Some Writer, wt := wt s @ [GetWriter]\<rparr>)))"

text \<open>The two handlers that \<open>connect\<close> puts on \<open>wt.closed\<close>: \<open>clean\<close> is the \<open>then\<close> one.\<close>

definition wt_closed :: "bool \<Rightarrow> client \<Rightarrow> client" where
  "wt_closed clean s =
     (if clean then fire (onConnectionClosed (events s)) ConnectionClosed (s\<lparr>connected := False\<rparr>)
      else fire (onConnectionError (events s)) (ConnectionError ClosedAbruptly)
             (s\<lparr>connected := False\<rparr>))"

text \<open>The \<open>catch\<close> block of a read loop whose reader failed.\<close>

definition read_failed :: "read_loop \<Rightarrow> client \<Rightarrow> client" where
  "read_failed l s = fire (onConnectionError (events s)) (ConnectionError (ErrorReading l)) s"

text \<open>
  \<open>close\<close>: \<open>closes\<close> is the promise of \<open>datagramWriter.close()\<close>, awaited only when a
  writer is held. When it rejects, the exception leaves \<open>close\<close> before anything is reset.
\<close>

definition close :: "bool \<Rightarrow> client \<Rightarrow> error option \<times> client" where
  "close closes s =
     (if datagramWriter s \<noteq> None \<and> \<not> closes then
        (Some Rejected, s\<lparr>wt := wt s @ [CloseWriter]\<rparr>)
      else
        (let s1 = (if datagramWriter s \<noteq> None
                   then s\<lparr>wt := wt s @ [CloseWriter], datagramWriter := None\<rparr> else s)
         in (None,
             s1\<lparr>wt := wt s1 @ [CloseTransport], connected := False, sessionId := None,
                username := None, currentRoomKey := None\<rparr>)))"

subsection \<open>Receiving\<close>

text \<open>
  \<open>bytesToBigInt\<close>: the loop \<open>result = (result << 8n) | BigInt(bytes[i])\<close> over the
  bytes from left to right, starting from \<open>0n\<close>.
\<close>

fun bytesToBigInt_from :: "int \<Rightarrow> bytes \<Rightarrow> int" where
  "bytesToBigInt_from result [] = result"
| "bytesToBigInt_from result (b # bs) = bytesToBigInt_from (push_bit 8 result OR uint b) bs"

definition bytesToBigInt :: "bytes \<Rightarrow> int" where
  "bytesToBigInt bs = bytesToBigInt_from 0 bs"

definition handleAuthResponseSuccess :: "codec \<Rightarrow> bytes \<Rightarrow> client \<Rightarrow> client" where
  "handleAuthResponseSuccess c data s =
     (case fromBinary_AuthResponseSuccess c data of
        None \<Rightarrow> s\<lparr>console := console s @ [ErrorParsingAuthSuccess]\<rparr>
      | Some sid \<Rightarrow> fire (onAuthSuccess (events s)) (AuthSuccess sid) (s\<lparr>sessionId := Some sid\<rparr>))"

definition handleAuthResponseError :: "codec \<Rightarrow> bytes \<Rightarrow> client \<Rightarrow> client" where
  "handleAuthResponseError c data s =
     (case fromBinary_AuthResponseError c data of
        None \<Rightarrow> s\<lparr>console := console s @ [ErrorParsingAuthError]\<rparr>
      | Some t \<Rightarrow> fire (onAuthError (events s)) (AuthError t) s)"

definition handleJoinRoomResponse :: "codec \<Rightarrow> bytes \<Rightarrow> client \<Rightarrow> client" where
  "handleJoinRoomResponse c data s =
     (case fromBinary_JoinRoomResponse c data of
        None \<Rightarrow> s\<lparr>console := console s @ [ErrorParsingJoinRoom]\<rparr>
      | Some users \<Rightarrow> fire (onJoinedRoom (events s)) (JoinedRoom users) s)"

definition handleUserJoined :: "codec \<Rightarrow> bytes \<Rightarrow> client \<Rightarrow> client" where
  "handleUserJoined c data s =
     (case fromBinary_RoomUser c data of
        None \<Rightarrow> s\<lparr>console := console s @ [ErrorParsingUserJoined]\<rparr>
      | Some user \<Rightarrow> fire (onUserJoined (events s)) (UserJoined user) s)"

text \<open>Nothing inside the \<open>try\<close> of \<open>handleUserLeft\<close> throws, so its \<open>catch\<close> has no branch here.\<close>

definition handleUserLeft :: "bytes \<Rightarrow> client \<Rightarrow> client" where
  "handleUserLeft data s =
     (if length data \<ge> 8 then fire (onUserLeft (events s)) (UserLeft (bytesToBigInt data)) s
      else s)"

definition processProtobufData :: "codec \<Rightarrow> bytes \<Rightarrow> client \<Rightarrow> client" where
  "processProtobufData c data s =
     (if length data < 1 then s
      else
        (let packetType = data ! 0; messageData = drop 1 data in
         if packetType = PacketType_value AUTH_RESPONSE_SUCCESS then
           handleAuthResponseSuccess c messageData s
         else if packetType = PacketType_value AUTH_RESPONSE_ERROR then
           handleAuthResponseError c messageData s
         else if packetType = PacketType_value JOIN_ROOM_RESPONSE then
           handleJoinRoomResponse c messageData s
         else if packetType = PacketType_value USER_JOINED then
           handleUserJoined c messageData s
         else if packetType = PacketType_value USER_LEFT then
           handleUserLeft messageData s
         else s\<lparr>console := console s @ [UnknownPacketType packetType]\<rparr>))"

definition processDatagramData :: "codec \<Rightarrow> bytes \<Rightarrow> client \<Rightarrow> client" where
  "processDatagramData c data s =
     (if length data > 0 \<and> data ! 0 = 0xFF then
        (let voiceData = drop 1 data in
         if length voiceData \<ge> 8 then
           (let sessionIdBytes = take 8 voiceData;
                sid = bytesToBigInt sessionIdBytes;
                actualVoiceData = drop 8 voiceData
            in fire (onVoiceData (events s)) (VoiceData sid actualVoiceData) s)
         else s)
      else processProtobufData c data s)"

text \<open>\<open>readFromStream\<close>: the chunks of one stream, concatenated, are one control packet.\<close>

definition readFromStream :: "codec \<Rightarrow> bytes list \<Rightarrow> client \<Rightarrow> client" where
  "readFromStream c chunks s = processProtobufData c (concat chunks) s"

subsection \<open>Runs\<close>

text \<open>
  Whatever happens to a client is one of these: a call of a public operation (with the
  answers of the transport), a datagram or a finished stream handed over by a read loop,
  the end of the connection, or a failed read.
\<close>

datatype action =
    Connect bool bool
  | Authenticate bool string
  | JoinRoom bool string
  | LeaveRoom
  | SendVoiceData bool bytes
  | Close bool
  | Datagram bytes
  | Stream "bytes list"
  | Closed bool
  | ReadFailed read_loop

fun step :: "codec \<Rightarrow> action \<Rightarrow> client \<Rightarrow> client" where
  "step c (Connect ready writable) s = snd (connect ready writable s)"
| "step c (Authenticate ack name) s = snd (authenticate c ack name s)"
| "step c (JoinRoom ack roomKey) s = snd (joinRoom c ack roomKey s)"
| "step c LeaveRoom s = snd (leaveRoom s)"
| "step c (SendVoiceData ack data) s = snd (sendVoiceData ack data s)"
| "step c (Close closes) s = snd (close closes s)"
| "step c (Datagram data) s = processDatagramData c data s"
| "step c (Stream chunks) s = readFromStream c chunks s"
| "step c (Closed clean) s = wt_closed clean s"
| "step c (ReadFailed l) s = read_failed l s"

definition run :: "codec \<Rightarrow> action list \<Rightarrow> client \<Rightarrow> client" where
  "run c acts s = fold (step c) acts s"

subsection \<open>Observations\<close>

text \<open>The fields of the session that the operations read and assign.\<close>

definition session ::
  "client \<Rightarrow> writer option \<times> int option \<times> string option \<times> string option \<times> bool" where
  "session s = (datagramWriter s, sessionId s, username s, currentRoomKey s, connected s)"

text \<open>
  \<open>connect\<close> sets \<open>connected\<close> and takes the writer in one block without an \<open>await\<close>
  between them, and only \<open>close\<close> gives the writer up: a connected client holds a writer.
\<close>

definition writer_held :: "client \<Rightarrow> bool" where
  "writer_held s = (connected s \<longrightarrow> datagramWriter s \<noteq> None)"

fun is_VoiceData :: "event \<Rightarrow> bool" where
  "is_VoiceData (VoiceData sid audio) = True"
| "is_VoiceData e = False"

subsection \<open>The spec's voice frame and membership tracker\<close>

text \<open>
  The spec's words for the voice frame, to compare the code with:
  \<open>encode(sessionId, audio)\<close> is \<open>[0xFF] ++ big_endian_u64(sessionId) ++ audio\<close>.
  \<open>be_bytes k n\<close> are the \<open>k\<close> low bytes of \<open>n\<close>, the most significant first.
\<close>

fun be_bytes :: "nat \<Rightarrow> int \<Rightarrow> bytes" where
  "be_bytes 0 n = []"
| "be_bytes (Suc k) n = be_bytes k (n div 256) @ [word_of_int (n mod 256)]"

definition big_endian_u64 :: "int \<Rightarrow> bytes" where
  "big_endian_u64 n = be_bytes 8 n"

definition spec_voice_frame :: "int \<Rightarrow> bytes \<Rightarrow> bytes" where
  "spec_voice_frame sid audio = 0xFF # big_endian_u64 sid @ audio"

text \<open>
  The three membership notifications of the server, and when a control packet carries one:
  its type byte, and a body that \<open>fromBinary\<close> reads (for USER_LEFT, the 8 raw bytes of
  the identifier).
\<close>

datatype notification = Roster "RoomUser list" | Joined RoomUser | Left int

fun carries :: "codec \<Rightarrow> bytes \<Rightarrow> notification \<Rightarrow> bool" where
  "carries c data (Roster users) =
     (data \<noteq> [] \<and> hd data = PacketType_value JOIN_ROOM_RESPONSE
      \<and> fromBinary_JoinRoomResponse c (tl data) = Some users)"
| "carries c data (Joined user) =
     (data \<noteq> [] \<and> hd data = PacketType_value USER_JOINED
      \<and> fromBinary_RoomUser c (tl data) = Some user)"
| "carries c data (Left sid) =
     (data \<noteq> [] \<and> hd data = PacketType_value USER_LEFT
      \<and> length (tl data) = 8 \<and> bytesToBigInt (tl data) = sid)"

fun notified :: "notification \<Rightarrow> event" where
  "notified (Roster users) = JoinedRoom users"
| "notified (Joined user) = UserJoined user"
| "notified (Left sid) = UserLeft sid"

text \<open>
  The spec's words for the Room Membership Tracker (the class has no such component):
  \<open>seed\<close> replaces the map, \<open>add\<close> inserts or overwrites by session identifier,
  \<open>remove\<close> deletes if present.
\<close>

fun user_key :: "RoomUser \<Rightarrow> int" where
  "user_key (RoomUser sid name) = sid"

definition spec_add :: "RoomUser \<Rightarrow> (int \<rightharpoonup> RoomUser) \<Rightarrow> (int \<rightharpoonup> RoomUser)" where
  "spec_add user m = m(user_key user \<mapsto> user)"

definition spec_seed :: "RoomUser list \<Rightarrow> (int \<rightharpoonup> RoomUser)" where
  "spec_seed roster = fold spec_add roster Map.empty"

definition spec_remove :: "int \<Rightarrow> (int \<rightharpoonup> RoomUser) \<Rightarrow> (int \<rightharpoonup> RoomUser)" where
  "spec_remove sid m = m(sid := None)"

fun spec_track :: "notification \<Rightarrow> (int \<rightharpoonup> RoomUser) \<Rightarrow> (int \<rightharpoonup> RoomUser)" where
  "spec_track (Roster users) m = spec_seed users"
| "spec_track (Joined user) m = spec_add user m"
| "spec_track (Left sid) m = spec_remove sid m"

definition spec_membership :: "notification list \<Rightarrow> (int \<rightharpoonup> RoomUser)" where
  "spec_membership ns = fold spec_track ns Map.empty"

subsection \<open>Sample inputs\<close>

text \<open>
  A client that was given every callback, and a small codec to run the model with: a
  request is the bytes of its string, a session identifier or an error type is one byte, a
  user is one byte (the identifier), a roster one byte for each user. The theorems below
  hold for every codec; this one only feeds their instances.
\<close>

definition all_events :: VoiceChatClientEvents where
  "all_events =
     \<lparr>onConnected = True, onConnectionError = True, onConnectionClosed = True,
      onAuthSuccess = True, onAuthError = True, onJoinedRoom = True, onUserJoined = True,
      onUserLeft = True, onVoiceData = True\<rparr>"

fun sample_user :: "byte \<Rightarrow> RoomUser" where
  "sample_user b = RoomUser (uint b) ''user''"

fun sample_number :: "bytes \<Rightarrow> int option" where
  "sample_number [b] = Some (uint b)"
| "sample_number bs = None"

fun sample_AuthRequest :: "AuthRequest \<Rightarrow> bytes" where
  "sample_AuthRequest (AuthRequest name token) = map of_char (name @ token)"

fun sample_JoinRoomRequest :: "JoinRoomRequest \<Rightarrow> bytes" where
  "sample_JoinRoomRequest (JoinRoomRequest roomKey) = map of_char roomKey"

fun sample_RoomUser :: "bytes \<Rightarrow> RoomUser option" where
  "sample_RoomUser [b] = Some (sample_user b)"
| "sample_RoomUser bs = None"

definition sample_codec :: codec where
  "sample_codec =
     \<lparr>toBinary_AuthRequest = sample_AuthRequest,
      toBinary_JoinRoomRequest = sample_JoinRoomRequest,
      fromBinary_AuthResponseSuccess = sample_number,
      fromBinary_AuthResponseError = sample_number,
      fromBinary_JoinRoomResponse = (\<lambda>bs. Some (map sample_user bs)),
      fromBinary_RoomUser = sample_RoomUser\<rparr>"

text \<open>
  A session that connected, was given the session identifier 42 and asked to join the room
  "lobby"; the same session before it asked to join; a session of the user "alice" that did
  all of this and then lost its connection abruptly (the handler on \<open>wt.closed\<close> keeps the
  writer); and one that connected and was given the session identifier 0.
\<close>

definition in_room_42 :: client where
  "in_room_42 =
     run sample_codec [Connect True True, Datagram [1, 42], JoinRoom True ''lobby'']
       (new_client all_events)"

definition authenticated_42 :: client where
  "authenticated_42 =
     run sample_codec [Connect True True, Datagram [1, 42]] (new_client all_events)"

definition dropped_alice :: client where
  "dropped_alice =
     run sample_codec
       [Connect True True, Authenticate True ''alice'', Datagram [1, 42],
        JoinRoom True ''lobby'', Closed False]
       (new_client all_events)"

definition session_0 :: client where
  "session_0 = run sample_codec [Connect True True, Datagram [1, 0]] (new_client all_events)"

section \<open>Properties\<close>

subsection \<open>Bytes as a number\<close>

lemma shift_or_byte: "push_bit 8 (r::int) OR uint (b::byte) = r * 256 + uint b"
proof -
  have "push_bit 8 r OR uint b = push_bit 8 r + uint b"
    by (rule disjunctive_add [symmetric]) (auto simp: bit_push_bit_iff bit_uint_iff)
  then show ?thesis by (simp add: push_bit_eq_mult)
qed

lemma bytesToBigInt_from_eq:
  "bytesToBigInt_from r bs = r * 256 ^ length bs + bytesToBigInt_from 0 bs"
proof (induction bs arbitrary: r)
  case Nil
  then show ?case by simp
next
  case (Cons b bs)
  have "bytesToBigInt_from r (b # bs) = bytesToBigInt_from (r * 256 + uint b) bs"
    by (simp add: shift_or_byte)
  also have "\<dots> = (r * 256 + uint b) * 256 ^ length bs + bytesToBigInt_from 0 bs"
    by (rule Cons.IH)
  also have "bytesToBigInt_from 0 (b # bs) = uint b * 256 ^ length bs + bytesToBigInt_from 0 bs"
    using Cons.IH [of "uint b"] by (simp add: shift_or_byte)
  ultimately show ?case by (simp add: algebra_simps)
qed

lemma bytesToBigInt_Nil: "bytesToBigInt [] = 0"
  by (simp add: bytesToBigInt_def)

lemma bytesToBigInt_Cons: "bytesToBigInt (b # bs) = uint b * 256 ^ length bs + bytesToBigInt bs"
  using bytesToBigInt_from_eq [of "uint b" bs] by (simp add: bytesToBigInt_def shift_or_byte)

lemma bytesToBigInt_append:
  "bytesToBigInt (xs @ ys) = bytesToBigInt xs * 256 ^ length ys + bytesToBigInt ys"
  by (induction xs) (simp_all add: bytesToBigInt_Nil bytesToBigInt_Cons power_add algebra_simps)

lemma bytesToBigInt_nonneg: "0 \<le> bytesToBigInt bs"
  by (induction bs) (simp_all add: bytesToBigInt_Nil bytesToBigInt_Cons)

lemma bytesToBigInt_less: "bytesToBigInt bs < 256 ^ length bs"
proof (induction bs)
  case Nil
  then show ?case by (simp add: bytesToBigInt_Nil)
next
  case (Cons b bs)
  have "uint b + 1 \<le> 256" using uint_lt2p [of b] by simp
  then have "(uint b + 1) * 256 ^ length bs \<le> 256 * 256 ^ length bs"
    by (rule mult_right_mono) simp
  moreover have "uint b * 256 ^ length bs + bytesToBigInt bs < (uint b + 1) * 256 ^ length bs"
    using Cons by (simp add: algebra_simps)
  ultimately have "uint b * 256 ^ length bs + bytesToBigInt bs < 256 * 256 ^ length bs"
    by (rule less_le_trans [rotated])
  then show ?case by (simp add: bytesToBigInt_Cons)
qed

lemma length_be_bytes: "length (be_bytes k n) = k"
  by (induction k arbitrary: n) simp_all

lemma bytesToBigInt_be_bytes: "bytesToBigInt (be_bytes k n) = n mod 256 ^ k"
proof (induction k arbitrary: n)
  case 0
  then show ?case by (simp add: bytesToBigInt_Nil)
next
  case (Suc k)
  have "uint (word_of_int (n mod 256) :: byte) = n mod 256"
    by (simp add: uint_word_of_int take_bit_eq_mod)
  then have "bytesToBigInt (be_bytes (Suc k) n) = (n div 256) mod 256 ^ k * 256 + n mod 256"
    by (simp add: bytesToBigInt_append Suc.IH bytesToBigInt_Cons bytesToBigInt_Nil)
  also have "\<dots> = n mod 256 ^ Suc k"
    using zmod_zmult2_eq [of "256 ^ k" n 256] by simp
  finally show ?case .
qed

subsection \<open>What the operations leave alone\<close>

lemma fire_fields [simp]:
  "datagramWriter (fire g e s) = datagramWriter s"
  "sessionId (fire g e s) = sessionId s"
  "username (fire g e s) = username s"
  "currentRoomKey (fire g e s) = currentRoomKey s"
  "events (fire g e s) = events s"
  "connected (fire g e s) = connected s"
  "wt (fire g e s) = wt s"
  "console (fire g e s) = console s"
  by (simp_all add: fire_def)

lemma fired_fire: "fired (fire g e s) = fired s @ (if g then [e] else [])"
  by (simp add: fire_def)

lemmas handler_defs =
  handleAuthResponseSuccess_def handleAuthResponseError_def handleJoinRoomResponse_def
  handleUserJoined_def handleUserLeft_def

lemma processProtobufData_fields:
  "datagramWriter (processProtobufData c data s) = datagramWriter s"
  "username (processProtobufData c data s) = username s"
  "currentRoomKey (processProtobufData c data s) = currentRoomKey s"
  "events (processProtobufData c data s) = events s"
  "connected (processProtobufData c data s) = connected s"
  "wt (processProtobufData c data s) = wt s"
  by (simp_all add: processProtobufData_def handler_defs Let_def split: option.splits)

lemma processDatagramData_fields:
  "datagramWriter (processDatagramData c data s) = datagramWriter s"
  "username (processDatagramData c data s) = username s"
  "currentRoomKey (processDatagramData c data s) = currentRoomKey s"
  "events (processDatagramData c data s) = events s"
  "connected (processDatagramData c data s) = connected s"
  "wt (processDatagramData c data s) = wt s"
  by (simp_all add: processDatagramData_def processProtobufData_fields Let_def)

lemma writer_held_step: "writer_held s \<Longrightarrow> writer_held (step c a s)"
proof (cases a)
  case (Connect ready writable)
  then show ?thesis by (simp add: writer_held_def connect_def)
next
  case (Authenticate ack name)
  assume "writer_held s"
  with Authenticate show ?thesis
    by (auto simp: writer_held_def authenticate_def write_datagram_def)
next
  case (JoinRoom ack roomKey)
  assume "writer_held s"
  with JoinRoom show ?thesis
    by (auto simp: writer_held_def joinRoom_def write_datagram_def)
next
  case LeaveRoom
  assume "writer_held s"
  with LeaveRoom show ?thesis by (auto simp: writer_held_def leaveRoom_def)
next
  case (SendVoiceData ack data)
  assume "writer_held s"
  with SendVoiceData show ?thesis
    by (auto simp: writer_held_def sendVoiceData_def write_datagram_def)
next
  case (Close closes)
  assume "writer_held s"
  with Close show ?thesis by (auto simp: writer_held_def close_def Let_def)
next
  case (Datagram data)
  assume "writer_held s"
  with Datagram show ?thesis by (simp add: writer_held_def processDatagramData_fields)
next
  case (Stream chunks)
  assume "writer_held s"
  with Stream show ?thesis
    by (simp add: writer_held_def readFromStream_def processProtobufData_fields)
next
  case (Closed clean)
  then show ?thesis by (simp add: writer_held_def wt_closed_def)
next
  case (ReadFailed l)
  assume "writer_held s"
  with ReadFailed show ?thesis by (simp add: writer_held_def read_failed_def)
qed

lemma writer_held_fold: "writer_held s \<Longrightarrow> writer_held (fold (step c) acts s)"
  by (induction acts arbitrary: s) (simp_all add: writer_held_step)

lemma writer_held_run: "writer_held (run c acts (new_client ev))"
  unfolding run_def by (rule writer_held_fold) (simp add: writer_held_def new_client_def)

lemma connected_run_writer:
  "connected (run c acts (new_client ev)) \<Longrightarrow> datagramWriter (run c acts (new_client ev)) \<noteq> None"
  using writer_held_run [of c acts ev] by (simp add: writer_held_def)

subsection \<open>The voice branch and the sample sessions\<close>

lemma big_endian_roundtrip:
  "0 \<le> n \<Longrightarrow> n < 2 ^ 64 \<Longrightarrow> bytesToBigInt (big_endian_u64 n) = n"
  by (simp add: big_endian_u64_def bytesToBigInt_be_bytes)

lemma length_big_endian_u64: "length (big_endian_u64 n) = 8"
  by (simp add: big_endian_u64_def length_be_bytes)

lemma voice_branch:
  "length rest \<ge> 8 \<Longrightarrow>
   processDatagramData c (0xFF # rest) s =
     fire (onVoiceData (events s)) (VoiceData (bytesToBigInt (take 8 rest)) (drop 8 rest)) s"
  by (simp add: processDatagramData_def Let_def)

lemma voice_branch_short:
  "length rest < 8 \<Longrightarrow> processDatagramData c (0xFF # rest) s = s"
  by (simp add: processDatagramData_def Let_def)

lemma sendVoiceData_in_room:
  assumes "connected s" "datagramWriter s \<noteq> None"
    "\<not> falsy_bigint (sessionId s)" "\<not> falsy_string (currentRoomKey s)"
  shows "sendVoiceData ack audio s =
     (if ack then None else Some Rejected, s\<lparr>wt := wt s @ [Write (0xFF # audio)]\<rparr>)"
  using assms by (simp add: sendVoiceData_def write_datagram_def)

lemma in_room_42_eq:
  "in_room_42 =
     \<lparr>datagramWriter = Some Writer, sessionId = Some 42, username = None,
      currentRoomKey = Some ''lobby'', events = all_events, connected = True,
      wt = [GetWriter, Write [3, 108, 111, 98, 98, 121]],
      fired = [Connected, AuthSuccess 42], console = []\<rparr>"
  by (simp add: in_room_42_def run_def new_client_def all_events_def sample_codec_def
      connect_def processDatagramData_def processProtobufData_def handleAuthResponseSuccess_def
      joinRoom_def write_datagram_def fire_def)

lemma session_0_eq:
  "session_0 =
     \<lparr>datagramWriter = Some Writer, sessionId = Some 0, username = None,
      currentRoomKey = None, events = all_events, connected = True,
      wt = [GetWriter], fired = [Connected, AuthSuccess 0], console = []\<rparr>"
  by (simp add: session_0_def run_def new_client_def all_events_def sample_codec_def
      connect_def processDatagramData_def processProtobufData_def handleAuthResponseSuccess_def
      fire_def)

section \<open>The claims\<close>

text \<open>
  Claim C1, as the code has it. In a session that any run of the client has reached and
  that is in a room (connected, holding a session identifier other than 0 and a room key
  other than the empty string), \<open>sendVoiceData audio\<close> makes exactly one call on the
  transport, a datagram write of the bytes \<open>[0xFF] ++ audio\<close>, and changes nothing else.
  The session identifier is not part of the frame: with the identifier 42 held,
  \<open>sendVoiceData [1,2,3]\<close> writes \<open>[0xFF,1,2,3]\<close>.
\<close>

theorem sendVoiceData_writes_marker_and_audio:
  assumes "s = run c acts (new_client ev)" and "connected s"
    and "sessionId s = Some sid" and "sid \<noteq> 0"
    and "currentRoomKey s = Some roomKey" and "roomKey \<noteq> []"
  shows "sendVoiceData ack audio s =
     (if ack then None else Some Rejected, s\<lparr>wt := wt s @ [Write (0xFF # audio)]\<rparr>)"
proof -
  have "datagramWriter s \<noteq> None"
    using assms(1,2) connected_run_writer by simp
  with assms show ?thesis by (simp add: sendVoiceData_in_room)
qed

theorem sendVoiceData_writes_marker_and_audio_witness:
  "in_room_42 = run sample_codec [Connect True True, Datagram [1, 42], JoinRoom True ''lobby'']
       (new_client all_events)
   \<and> connected in_room_42 \<and> sessionId in_room_42 = Some 42 \<and> (42::int) \<noteq> 0
   \<and> currentRoomKey in_room_42 = Some ''lobby'' \<and> ''lobby'' \<noteq> []
   \<and> sendVoiceData True [1, 2, 3] in_room_42 =
       (None, in_room_42\<lparr>wt := wt in_room_42 @ [Write [0xFF, 1, 2, 3]]\<rparr>)"
proof -
  have r: "in_room_42 =
      run sample_codec [Connect True True, Datagram [1, 42], JoinRoom True ''lobby'']
        (new_client all_events)"
    by (simp add: in_room_42_def)
  have c: "connected in_room_42" and i: "sessionId in_room_42 = Some 42"
    and k: "currentRoomKey in_room_42 = Some ''lobby''"
    by (simp_all add: in_room_42_eq)
  have "sendVoiceData True [1, 2, 3] in_room_42 =
      (None, in_room_42\<lparr>wt := wt in_room_42 @ [Write [0xFF, 1, 2, 3]]\<rparr>)"
    using sendVoiceData_writes_marker_and_audio [OF r c i _ k, of True "[1, 2, 3]"] by simp
  with r c i k show ?thesis by simp
qed

text \<open>
  Claim C1 as the spec states it fails: with the session identifier 42 held, the one write
  of \<open>sendVoiceData [1,2,3]\<close> is \<open>[0xFF,1,2,3]\<close> and not
  \<open>[0xFF,0,0,0,0,0,0,0,42,1,2,3]\<close>.
\<close>

theorem sendVoiceData_omits_session_id:
  "wt (snd (sendVoiceData True [1, 2, 3] in_room_42)) =
     wt in_room_42 @ [Write [0xFF, 1, 2, 3]]
   \<and> wt (snd (sendVoiceData True [1, 2, 3] in_room_42)) \<noteq>
     wt in_room_42 @ [Write (spec_voice_frame 42 [1, 2, 3])]
   \<and> spec_voice_frame 42 [1, 2, 3] = [0xFF, 0, 0, 0, 0, 0, 0, 0, 42, 1, 2, 3]"
  by (simp add: in_room_42_eq sendVoiceData_def write_datagram_def spec_voice_frame_def
      big_endian_u64_def eval_nat_numeral)

lemma authenticated_42_eq:
  "authenticated_42 =
     \<lparr>datagramWriter = Some Writer, sessionId = Some 42, username = None,
      currentRoomKey = None, events = all_events, connected = True,
      wt = [GetWriter], fired = [Connected, AuthSuccess 42], console = []\<rparr>"
  by (simp add: authenticated_42_def run_def new_client_def all_events_def sample_codec_def
      connect_def processDatagramData_def processProtobufData_def handleAuthResponseSuccess_def
      fire_def)

text \<open>
  Claim C2, as the code has it. For every session identifier in \<open>[0, 2^64-1]\<close> and every
  payload, the voice branch of datagram dispatch reads the spec's frame
  \<open>[0xFF] ++ big_endian_u64(id) ++ payload\<close> back as \<open>(id, payload)\<close> and hands it to
  \<open>onVoiceData\<close>. The frame that the voice send path writes for a payload is
  \<open>[0xFF] ++ payload\<close>, without the identifier; dispatch reads that frame as the big-endian
  number of the payload's first 8 bytes and the rest of the payload when the payload has
  8 bytes or more, and drops it otherwise.
\<close>

theorem voice_frames_delivered:
  "(0 \<le> sid \<and> sid < 2 ^ 64 \<longrightarrow>
      processDatagramData c (spec_voice_frame sid audio) s =
        fire (onVoiceData (events s)) (VoiceData sid audio) s)
   \<and> (connected t \<and> datagramWriter t \<noteq> None \<and> \<not> falsy_bigint (sessionId t)
        \<and> \<not> falsy_string (currentRoomKey t) \<longrightarrow>
      (\<exists>frame. wt (snd (sendVoiceData ack audio t)) = wt t @ [Write frame]
         \<and> processDatagramData c frame s =
             (if length audio \<ge> 8
              then fire (onVoiceData (events s))
                     (VoiceData (bytesToBigInt (take 8 audio)) (drop 8 audio)) s
              else s)))"
proof (intro conjI impI)
  assume "0 \<le> sid \<and> sid < 2 ^ 64"
  then show "processDatagramData c (spec_voice_frame sid audio) s =
        fire (onVoiceData (events s)) (VoiceData sid audio) s"
    by (simp add: spec_voice_frame_def voice_branch length_big_endian_u64 big_endian_roundtrip)
next
  assume "connected t \<and> datagramWriter t \<noteq> None \<and> \<not> falsy_bigint (sessionId t)
        \<and> \<not> falsy_string (currentRoomKey t)"
  then have "wt (snd (sendVoiceData ack audio t)) = wt t @ [Write (0xFF # audio)]"
    by (simp add: sendVoiceData_in_room)
  moreover have "processDatagramData c (0xFF # audio) s =
             (if length audio \<ge> 8
              then fire (onVoiceData (events s))
                     (VoiceData (bytesToBigInt (take 8 audio)) (drop 8 audio)) s
              else s)"
    by (simp add: voice_branch voice_branch_short)
  ultimately show "\<exists>frame. wt (snd (sendVoiceData ack audio t)) = wt t @ [Write frame]
         \<and> processDatagramData c frame s =
             (if length audio \<ge> 8
              then fire (onVoiceData (events s))
                     (VoiceData (bytesToBigInt (take 8 audio)) (drop 8 audio)) s
              else s)"
    by blast
qed

theorem voice_frames_delivered_witness:
  "(0::int) \<le> 42 \<and> (42::int) < 2 ^ 64
   \<and> processDatagramData sample_codec [0xFF, 0, 0, 0, 0, 0, 0, 0, 42, 1, 2, 3]
        (new_client all_events)
      = (new_client all_events)\<lparr>fired := [VoiceData 42 [1, 2, 3]]\<rparr>
   \<and> connected in_room_42 \<and> datagramWriter in_room_42 \<noteq> None
   \<and> \<not> falsy_bigint (sessionId in_room_42) \<and> \<not> falsy_string (currentRoomKey in_room_42)
   \<and> (\<exists>frame. wt (snd (sendVoiceData True [0, 0, 0, 0, 0, 0, 0, 7, 9] in_room_42))
                 = wt in_room_42 @ [Write frame]
         \<and> processDatagramData sample_codec frame (new_client all_events)
             = (new_client all_events)\<lparr>fired := [VoiceData 7 [9]]\<rparr>)"
proof -
  have f: "spec_voice_frame 42 [1, 2, 3] = [0xFF, 0, 0, 0, 0, 0, 0, 0, 42, 1, 2, 3]"
    by (simp add: spec_voice_frame_def big_endian_u64_def eval_nat_numeral)
  have h: "connected in_room_42 \<and> datagramWriter in_room_42 \<noteq> None
      \<and> \<not> falsy_bigint (sessionId in_room_42) \<and> \<not> falsy_string (currentRoomKey in_room_42)"
    by (simp add: in_room_42_eq)
  have n: "bytesToBigInt [0, 0, 0, 0, 0, 0, 0, 7] = 7"
    by (simp add: bytesToBigInt_Cons bytesToBigInt_Nil)
  note t = voice_frames_delivered [of 42 sample_codec "[1, 2, 3]" "new_client all_events"
      in_room_42 True]
    voice_frames_delivered [of 42 sample_codec "[0, 0, 0, 0, 0, 0, 0, 7, 9]"
      "new_client all_events" in_room_42 True]
  have a: "processDatagramData sample_codec [0xFF, 0, 0, 0, 0, 0, 0, 0, 42, 1, 2, 3]
        (new_client all_events)
      = (new_client all_events)\<lparr>fired := [VoiceData 42 [1, 2, 3]]\<rparr>"
    using t(1) by (simp add: f fire_def new_client_def all_events_def)
  have b: "\<exists>frame. wt (snd (sendVoiceData True [0, 0, 0, 0, 0, 0, 0, 7, 9] in_room_42))
                 = wt in_room_42 @ [Write frame]
         \<and> processDatagramData sample_codec frame (new_client all_events)
             = (new_client all_events)\<lparr>fired := [VoiceData 7 [9]]\<rparr>"
    using t(2) h by (simp add: n fire_def new_client_def all_events_def)
  from a b h show ?thesis by simp
qed

text \<open>
  Claim C2 as the spec states it fails: the frame that \<open>sendVoiceData [1,2,3]\<close> writes
  with the identifier 42 held is \<open>[0xFF,1,2,3]\<close>, and dispatching it delivers nothing.
\<close>

theorem sent_voice_frame_not_delivered:
  "wt (snd (sendVoiceData True [1, 2, 3] in_room_42)) = wt in_room_42 @ [Write [0xFF, 1, 2, 3]]
   \<and> processDatagramData sample_codec [0xFF, 1, 2, 3] (new_client all_events)
       = new_client all_events
   \<and> fired (processDatagramData sample_codec [0xFF, 1, 2, 3] (new_client all_events))
       \<noteq> [VoiceData 42 [1, 2, 3]]"
  by (simp add: in_room_42_eq sendVoiceData_def write_datagram_def processDatagramData_def
      new_client_def)

subsection \<open>Control packets\<close>

lemma control_packet:
  "t \<noteq> 0xFF \<Longrightarrow> processDatagramData c (t # body) s = processProtobufData c (t # body) s"
  by (simp add: processDatagramData_def)

lemma auth_success_packet:
  "processProtobufData c (1 # body) s = handleAuthResponseSuccess c body s"
  by (simp add: processProtobufData_def)

lemma auth_error_packet:
  "processProtobufData c (2 # body) s = handleAuthResponseError c body s"
  by (simp add: processProtobufData_def)

lemma join_room_response_packet:
  "processProtobufData c (4 # body) s = handleJoinRoomResponse c body s"
  by (simp add: processProtobufData_def)

lemma user_joined_packet:
  "processProtobufData c (5 # body) s = handleUserJoined c body s"
  by (simp add: processProtobufData_def)

lemma user_left_packet:
  "processProtobufData c (6 # body) s = handleUserLeft body s"
  by (simp add: processProtobufData_def)

lemma unknown_packet:
  "t \<notin> {1, 2, 4, 5, 6} \<Longrightarrow>
   processProtobufData c (t # body) s = s\<lparr>console := console s @ [UnknownPacketType t]\<rparr>"
  by (simp add: processProtobufData_def)

lemma fire_given: "fire True e s = s\<lparr>fired := fired s @ [e]\<rparr>"
  by (simp add: fire_def)

lemma carried_notification:
  assumes "carries c packet n"
    and "onJoinedRoom (events s)" "onUserJoined (events s)" "onUserLeft (events s)"
  shows "processDatagramData c packet s = s\<lparr>fired := fired s @ [notified n]\<rparr>"
proof (cases packet)
  case Nil
  with assms(1) show ?thesis by (cases n) simp_all
next
  case (Cons t body)
  show ?thesis
  proof (cases n)
    case (Roster users)
    with assms Cons show ?thesis
      by (simp add: control_packet join_room_response_packet handleJoinRoomResponse_def
          fire_given)
  next
    case (Joined user)
    with assms Cons show ?thesis
      by (simp add: control_packet user_joined_packet handleUserJoined_def fire_given)
  next
    case (Left sid)
    with assms Cons show ?thesis
      by (auto simp: control_packet user_left_packet handleUserLeft_def fire_given)
  qed
qed

lemma carried_notifications:
  assumes "list_all2 (carries c) packets ns"
    and "onJoinedRoom (events s)" "onUserJoined (events s)" "onUserLeft (events s)"
  shows "fold (step c) (map Datagram packets) s = s\<lparr>fired := fired s @ map notified ns\<rparr>"
  using assms
proof (induction packets ns arbitrary: s rule: list_all2_induct)
  case Nil
  then show ?case by simp
next
  case (Cons packet packets n ns)
  let ?s = "s\<lparr>fired := fired s @ [notified n]\<rparr>"
  have "fold (step c) (map Datagram (packet # packets)) s
      = fold (step c) (map Datagram packets) ?s"
    using Cons.hyps(1) Cons.prems by (simp add: carried_notification)
  also have "\<dots> = ?s\<lparr>fired := fired ?s @ map notified ns\<rparr>"
    using Cons.prems by (intro Cons.IH) simp_all
  finally show ?case by simp
qed

text \<open>
  Claim C3, as the code has it. The client keeps no membership map. For every sequence of
  JOIN_ROOM_RESPONSE, USER_JOINED and USER_LEFT notifications that arrives as datagrams,
  dispatching them in arrival order calls \<open>onJoinedRoom\<close> with each roster,
  \<open>onUserJoined\<close> with each user and \<open>onUserLeft\<close> with each identifier, in that order,
  and changes no field of the client: nothing is stored. A USER_LEFT for an identifier that
  no earlier notification named is forwarded like any other and raises nothing. With no map
  to clear, \<open>leaveRoom\<close> and \<open>close\<close> call no callback.
\<close>

theorem membership_notifications_forwarded:
  assumes "list_all2 (carries c) packets ns"
    and "onJoinedRoom (events s)" and "onUserJoined (events s)" and "onUserLeft (events s)"
  shows "run c (map Datagram packets) s = s\<lparr>fired := fired s @ map notified ns\<rparr>
    \<and> session (run c (map Datagram packets) s) = session s
    \<and> fired (snd (leaveRoom s)) = fired s
    \<and> fired (snd (close closes s)) = fired s"
proof -
  have r: "run c (map Datagram packets) s = s\<lparr>fired := fired s @ map notified ns\<rparr>"
    unfolding run_def using assms by (rule carried_notifications)
  have "fired (snd (leaveRoom s)) = fired s"
    by (simp add: leaveRoom_def)
  moreover have "fired (snd (close closes s)) = fired s"
    by (simp add: close_def Let_def)
  ultimately show ?thesis using r by (simp add: session_def)
qed

theorem membership_notifications_forwarded_witness:
  "list_all2 (carries sample_codec)
     [[4, 1, 2], [5, 3], [6, 0, 0, 0, 0, 0, 0, 0, 2], [6, 0, 0, 0, 0, 0, 0, 0, 9]]
     [Roster [sample_user 1, sample_user 2], Joined (sample_user 3), Left 2, Left 9]
   \<and> onJoinedRoom (events in_room_42) \<and> onUserJoined (events in_room_42)
   \<and> onUserLeft (events in_room_42)
   \<and> run sample_codec
        (map Datagram
          [[4, 1, 2], [5, 3], [6, 0, 0, 0, 0, 0, 0, 0, 2], [6, 0, 0, 0, 0, 0, 0, 0, 9]])
        in_room_42
      = in_room_42\<lparr>fired := fired in_room_42 @
          [JoinedRoom [sample_user 1, sample_user 2], UserJoined (sample_user 3),
           UserLeft 2, UserLeft 9]\<rparr>"
proof -
  have n: "bytesToBigInt [0, 0, 0, 0, 0, 0, 0, 2] = 2" "bytesToBigInt [0, 0, 0, 0, 0, 0, 0, 9] = 9"
    by (simp_all add: bytesToBigInt_Cons bytesToBigInt_Nil)
  have p: "list_all2 (carries sample_codec)
     [[4, 1, 2], [5, 3], [6, 0, 0, 0, 0, 0, 0, 0, 2], [6, 0, 0, 0, 0, 0, 0, 0, 9]]
     [Roster [sample_user 1, sample_user 2], Joined (sample_user 3), Left 2, Left 9]"
    by (simp add: n sample_codec_def)
  have e: "onJoinedRoom (events in_room_42)" "onUserJoined (events in_room_42)"
    "onUserLeft (events in_room_42)"
    by (simp_all add: in_room_42_eq all_events_def)
  from membership_notifications_forwarded [OF p e, of True] p e show ?thesis
    by simp
qed

text \<open>
  Claim C3 as the spec states it fails. After the roster \<open>[1, 2]\<close>, the arrival of user 3
  and the departure of user 2 the spec's map holds the users 1 and 3 and not 2, whereas
  the client is what it was before the three notifications, but for the three callback calls
  on record: it holds no map, and from its fields no membership can be read.
\<close>

theorem client_holds_no_membership:
  "run sample_codec [Datagram [4, 1, 2], Datagram [5, 3], Datagram [6, 0, 0, 0, 0, 0, 0, 0, 2]]
     in_room_42
   = in_room_42\<lparr>fired := fired in_room_42 @
       [JoinedRoom [sample_user 1, sample_user 2], UserJoined (sample_user 3), UserLeft 2]\<rparr>
   \<and> session (run sample_codec
        [Datagram [4, 1, 2], Datagram [5, 3], Datagram [6, 0, 0, 0, 0, 0, 0, 0, 2]] in_room_42)
       = session in_room_42
   \<and> spec_membership [Roster [sample_user 1, sample_user 2], Joined (sample_user 3), Left 2] 1
       = Some (sample_user 1)
   \<and> spec_membership [Roster [sample_user 1, sample_user 2], Joined (sample_user 3), Left 2] 2
       = None
   \<and> spec_membership [Roster [sample_user 1, sample_user 2], Joined (sample_user 3), Left 2] 3
       = Some (sample_user 3)
   \<and> spec_membership [] 1 = None"
proof -
  have n: "bytesToBigInt [0, 0, 0, 0, 0, 0, 0, 2] = 2"
    by (simp add: bytesToBigInt_Cons bytesToBigInt_Nil)
  have "run sample_codec [Datagram [4, 1, 2], Datagram [5, 3], Datagram [6, 0, 0, 0, 0, 0, 0, 0, 2]]
     in_room_42
   = in_room_42\<lparr>fired := fired in_room_42 @
       [JoinedRoom [sample_user 1, sample_user 2], UserJoined (sample_user 3), UserLeft 2]\<rparr>"
    by (simp add: run_def in_room_42_eq all_events_def sample_codec_def control_packet
        join_room_response_packet user_joined_packet user_left_packet handleJoinRoomResponse_def
        handleUserJoined_def handleUserLeft_def fire_def n)
  moreover have "spec_membership [Roster [sample_user 1, sample_user 2], Joined (sample_user 3), Left 2] 1
       = Some (sample_user 1)"
    "spec_membership [Roster [sample_user 1, sample_user 2], Joined (sample_user 3), Left 2] 2
       = None"
    "spec_membership [Roster [sample_user 1, sample_user 2], Joined (sample_user 3), Left 2] 3
       = Some (sample_user 3)"
    "spec_membership [] 1 = None"
    by (simp_all add: spec_membership_def spec_seed_def spec_add_def spec_remove_def)
  ultimately show ?thesis by (simp add: session_def)
qed

subsection \<open>Where the session identifier is assigned\<close>

lemma sessionId_processProtobufData:
  assumes "sessionId (processProtobufData c data s) \<noteq> sessionId s"
  shows "\<exists>body sid. data = 1 # body \<and> fromBinary_AuthResponseSuccess c body = Some sid
    \<and> processProtobufData c data s
        = fire (onAuthSuccess (events s)) (AuthSuccess sid) (s\<lparr>sessionId := Some sid\<rparr>)"
proof (cases data)
  case Nil
  with assms show ?thesis by (simp add: processProtobufData_def)
next
  case (Cons t body)
  show ?thesis
  proof (cases "t = 1")
    case True
    with assms Cons show ?thesis
      by (auto simp: auth_success_packet handleAuthResponseSuccess_def split: option.splits)
  next
    case False
    with assms Cons show ?thesis
      by (auto simp: processProtobufData_def handleAuthResponseError_def
          handleJoinRoomResponse_def handleUserJoined_def handleUserLeft_def
          split: option.splits if_splits)
  qed
qed

lemma sessionId_processDatagramData:
  assumes "sessionId (processDatagramData c data s) \<noteq> sessionId s"
  shows "\<exists>body sid. data = 1 # body \<and> fromBinary_AuthResponseSuccess c body = Some sid
    \<and> processDatagramData c data s
        = fire (onAuthSuccess (events s)) (AuthSuccess sid) (s\<lparr>sessionId := Some sid\<rparr>)"
proof (cases "length data > 0 \<and> data ! 0 = 0xFF")
  case True
  with assms show ?thesis by (simp add: processDatagramData_def Let_def split: if_splits)
next
  case False
  then have "processDatagramData c data s = processProtobufData c data s"
    by (auto simp: processDatagramData_def)
  with assms show ?thesis using sessionId_processProtobufData [of c data s] by simp
qed

lemma sessionId_step:
  assumes "sessionId (step c a s) \<noteq> sessionId s"
  shows "(\<exists>closes. a = Close closes \<and> sessionId (step c a s) = None)
    \<or> (\<exists>data body sid. (a = Datagram data \<or> (\<exists>chunks. a = Stream chunks \<and> data = concat chunks))
          \<and> data = 1 # body \<and> fromBinary_AuthResponseSuccess c body = Some sid
          \<and> step c a s
              = fire (onAuthSuccess (events s)) (AuthSuccess sid) (s\<lparr>sessionId := Some sid\<rparr>))"
proof (cases a)
  case (Connect ready writable)
  with assms show ?thesis by (simp add: connect_def split: if_splits)
next
  case (Authenticate ack name)
  with assms show ?thesis by (simp add: authenticate_def write_datagram_def split: if_splits)
next
  case (JoinRoom ack roomKey)
  with assms show ?thesis by (simp add: joinRoom_def write_datagram_def split: if_splits)
next
  case LeaveRoom
  with assms show ?thesis by (simp add: leaveRoom_def split: if_splits)
next
  case (SendVoiceData ack data)
  with assms show ?thesis by (simp add: sendVoiceData_def write_datagram_def split: if_splits)
next
  case (Close closes)
  with assms show ?thesis by (simp add: close_def Let_def split: if_splits)
next
  case (Datagram data)
  with assms show ?thesis using sessionId_processDatagramData [of c data s] by auto
next
  case (Stream chunks)
  with assms show ?thesis
    using sessionId_processProtobufData [of c "concat chunks" s]
    by (auto simp: readFromStream_def)
next
  case (Closed clean)
  with assms show ?thesis by (simp add: wt_closed_def split: if_splits)
next
  case (ReadFailed l)
  with assms show ?thesis by (simp add: read_failed_def)
qed

lemma authenticate_connected:
  assumes "connected s" "datagramWriter s \<noteq> None"
  shows "authenticate c ack name s =
     (if ack then None else Some Rejected,
      s\<lparr>username := Some name,
        wt := wt s @ [Write (0 # toBinary_AuthRequest c (AuthRequest name []))]\<rparr>)"
  using assms by (simp add: authenticate_def write_datagram_def)

lemma joinRoom_authenticated:
  assumes "connected s" "datagramWriter s \<noteq> None" "\<not> falsy_bigint (sessionId s)"
  shows "joinRoom c ack roomKey s =
     (if ack then None else Some Rejected,
      s\<lparr>currentRoomKey := Some roomKey,
        wt := wt s @ [Write (3 # toBinary_JoinRoomRequest c (JoinRoomRequest roomKey))]\<rparr>)"
  using assms by (simp add: joinRoom_def write_datagram_def)

text \<open>
  Claim C4. Before the session is connected, \<open>authenticate\<close> fails with NotConnected, writes
  nothing and changes nothing. In a connected session that a run of the client has reached
  it makes exactly one datagram write, the AUTH_REQUEST packet of the username, and assigns
  the username only: the connection status, the session identifier and the room key stay.
  The session identifier gets a value only when an AUTH_RESPONSE_SUCCESS packet is
  dispatched: it becomes the identifier the packet carries, and \<open>onAuthSuccess\<close> is called
  with it (the one other change to it is \<open>close\<close>, which clears it). An
  AUTH_RESPONSE_ERROR packet changes nothing and calls \<open>onAuthError\<close>.
\<close>

theorem authenticate_sends_and_response_assigns:
  "(\<not> connected s \<longrightarrow> authenticate c ack name s = (Some NotConnected, s))
   \<and> (s = run c acts (new_client ev) \<and> connected s \<longrightarrow>
        authenticate c ack name s =
          (if ack then None else Some Rejected,
           s\<lparr>username := Some name,
             wt := wt s @ [Write (PacketType_value AUTH_REQUEST
                                  # toBinary_AuthRequest c (AuthRequest name []))]\<rparr>)
        \<and> connected (snd (authenticate c ack name s)) = connected s
        \<and> sessionId (snd (authenticate c ack name s)) = sessionId s
        \<and> currentRoomKey (snd (authenticate c ack name s)) = currentRoomKey s)
   \<and> (sessionId (step c a s) \<noteq> sessionId s \<longrightarrow>
        (\<exists>closes. a = Close closes \<and> sessionId (step c a s) = None)
        \<or> (\<exists>data body sid.
              (a = Datagram data \<or> (\<exists>chunks. a = Stream chunks \<and> data = concat chunks))
              \<and> data = PacketType_value AUTH_RESPONSE_SUCCESS # body
              \<and> fromBinary_AuthResponseSuccess c body = Some sid
              \<and> step c a s = fire (onAuthSuccess (events s)) (AuthSuccess sid)
                               (s\<lparr>sessionId := Some sid\<rparr>)))
   \<and> (fromBinary_AuthResponseSuccess c body = Some sid \<longrightarrow>
        processDatagramData c (PacketType_value AUTH_RESPONSE_SUCCESS # body) s =
          fire (onAuthSuccess (events s)) (AuthSuccess sid) (s\<lparr>sessionId := Some sid\<rparr>))
   \<and> (fromBinary_AuthResponseError c body = Some t \<longrightarrow>
        processDatagramData c (PacketType_value AUTH_RESPONSE_ERROR # body) s =
          fire (onAuthError (events s)) (AuthError t) s)"
proof (intro conjI impI)
  assume "\<not> connected s"
  then show "authenticate c ack name s = (Some NotConnected, s)"
    by (simp add: authenticate_def)
next
  assume r: "s = run c acts (new_client ev) \<and> connected s"
  then have s: "s = run c acts (new_client ev)" and k: "connected s"
    by blast+
  have w: "datagramWriter s \<noteq> None"
    using k unfolding s by (rule connected_run_writer)
  have e: "authenticate c ack name s =
          (if ack then None else Some Rejected,
           s\<lparr>username := Some name,
             wt := wt s @ [Write (PacketType_value AUTH_REQUEST
                                  # toBinary_AuthRequest c (AuthRequest name []))]\<rparr>)"
    using k w by (simp add: authenticate_connected)
  show "authenticate c ack name s =
          (if ack then None else Some Rejected,
           s\<lparr>username := Some name,
             wt := wt s @ [Write (PacketType_value AUTH_REQUEST
                                  # toBinary_AuthRequest c (AuthRequest name []))]\<rparr>)"
    by (rule e)
  show "connected (snd (authenticate c ack name s)) = connected s"
    "sessionId (snd (authenticate c ack name s)) = sessionId s"
    "currentRoomKey (snd (authenticate c ack name s)) = currentRoomKey s"
    by (simp_all add: e)
next
  assume "sessionId (step c a s) \<noteq> sessionId s"
  then show "(\<exists>closes. a = Close closes \<and> sessionId (step c a s) = None)
        \<or> (\<exists>data body sid.
              (a = Datagram data \<or> (\<exists>chunks. a = Stream chunks \<and> data = concat chunks))
              \<and> data = PacketType_value AUTH_RESPONSE_SUCCESS # body
              \<and> fromBinary_AuthResponseSuccess c body = Some sid
              \<and> step c a s = fire (onAuthSuccess (events s)) (AuthSuccess sid)
                               (s\<lparr>sessionId := Some sid\<rparr>))"
    using sessionId_step [of c a s] by simp
next
  assume "fromBinary_AuthResponseSuccess c body = Some sid"
  then show "processDatagramData c (PacketType_value AUTH_RESPONSE_SUCCESS # body) s =
          fire (onAuthSuccess (events s)) (AuthSuccess sid) (s\<lparr>sessionId := Some sid\<rparr>)"
    by (simp add: control_packet auth_success_packet handleAuthResponseSuccess_def)
next
  assume "fromBinary_AuthResponseError c body = Some t"
  then show "processDatagramData c (PacketType_value AUTH_RESPONSE_ERROR # body) s =
          fire (onAuthError (events s)) (AuthError t) s"
    by (simp add: control_packet auth_error_packet handleAuthResponseError_def)
qed

lemma connected_client_eq:
  "run sample_codec [Connect True True] (new_client all_events) =
     \<lparr>datagramWriter = Some Writer, sessionId = None, username = None,
      currentRoomKey = None, events = all_events, connected = True,
      wt = [GetWriter], fired = [Connected], console = []\<rparr>"
  by (simp add: run_def new_client_def all_events_def connect_def fire_def)

theorem authenticate_sends_and_response_assigns_witness:
  "\<not> connected (new_client all_events)
   \<and> authenticate sample_codec True ''alice'' (new_client all_events)
       = (Some NotConnected, new_client all_events)
   \<and> connected (run sample_codec [Connect True True] (new_client all_events))
   \<and> authenticate sample_codec True ''alice''
         (run sample_codec [Connect True True] (new_client all_events))
       = (None,
          \<lparr>datagramWriter = Some Writer, sessionId = None, username = Some ''alice'',
           currentRoomKey = None, events = all_events, connected = True,
           wt = [GetWriter, Write [0, 97, 108, 105, 99, 101]], fired = [Connected],
           console = []\<rparr>)
   \<and> sessionId (step sample_codec (Datagram [1, 42])
         (run sample_codec [Connect True True] (new_client all_events)))
       \<noteq> sessionId (run sample_codec [Connect True True] (new_client all_events))
   \<and> fromBinary_AuthResponseSuccess sample_codec [42] = Some 42
   \<and> processDatagramData sample_codec [1, 42]
         (run sample_codec [Connect True True] (new_client all_events))
       = \<lparr>datagramWriter = Some Writer, sessionId = Some 42, username = None,
          currentRoomKey = None, events = all_events, connected = True,
          wt = [GetWriter], fired = [Connected, AuthSuccess 42], console = []\<rparr>
   \<and> fromBinary_AuthResponseError sample_codec [1] = Some 1
   \<and> processDatagramData sample_codec [2, 1] authenticated_42
       = authenticated_42\<lparr>fired := fired authenticated_42 @ [AuthError 1]\<rparr>"
proof -
  let ?s = "run sample_codec [Connect True True] (new_client all_events)"
  have n: "\<not> connected (new_client all_events)"
    by (simp add: new_client_def)
  have k: "?s = run sample_codec [Connect True True] (new_client all_events) \<and> connected ?s"
    by (simp add: connected_client_eq)
  have d: "fromBinary_AuthResponseSuccess sample_codec [42] = Some 42"
    and d': "fromBinary_AuthResponseError sample_codec [1] = Some 1"
    by (simp_all add: sample_codec_def)
  have a: "authenticate sample_codec True ''alice'' (new_client all_events)
       = (Some NotConnected, new_client all_events)"
    using authenticate_sends_and_response_assigns
      [where s = "new_client all_events" and c = sample_codec and ack = True
        and name = "''alice''", THEN conjunct1, THEN mp, OF n] .
  have "authenticate sample_codec True ''alice'' ?s
       = (None, ?s\<lparr>username := Some ''alice'',
            wt := wt ?s @ [Write (PacketType_value AUTH_REQUEST
                # toBinary_AuthRequest sample_codec (AuthRequest ''alice'' []))]\<rparr>)"
    using authenticate_sends_and_response_assigns
      [where s = ?s and c = sample_codec and ack = True and name = "''alice''"
        and acts = "[Connect True True]" and ev = all_events,
        THEN conjunct2, THEN conjunct1, THEN mp, OF k, THEN conjunct1]
    by simp
  then have b: "authenticate sample_codec True ''alice'' ?s
       = (None,
          \<lparr>datagramWriter = Some Writer, sessionId = None, username = Some ''alice'',
           currentRoomKey = None, events = all_events, connected = True,
           wt = [GetWriter, Write [0, 97, 108, 105, 99, 101]], fired = [Connected],
           console = []\<rparr>)"
    by (simp add: connected_client_eq) (simp add: sample_codec_def)
  have "processDatagramData sample_codec (PacketType_value AUTH_RESPONSE_SUCCESS # [42]) ?s
       = fire (onAuthSuccess (events ?s)) (AuthSuccess 42) (?s\<lparr>sessionId := Some 42\<rparr>)"
    using authenticate_sends_and_response_assigns
      [where s = ?s and c = sample_codec and body = "[42]" and sid = 42,
        THEN conjunct2, THEN conjunct2, THEN conjunct2, THEN conjunct1, THEN mp, OF d] .
  then have c: "processDatagramData sample_codec [1, 42] ?s
       = \<lparr>datagramWriter = Some Writer, sessionId = Some 42, username = None,
          currentRoomKey = None, events = all_events, connected = True,
          wt = [GetWriter], fired = [Connected, AuthSuccess 42], console = []\<rparr>"
    by (simp add: connected_client_eq) (simp add: fire_def all_events_def)
  have "processDatagramData sample_codec (PacketType_value AUTH_RESPONSE_ERROR # [1])
          authenticated_42
       = fire (onAuthError (events authenticated_42)) (AuthError 1) authenticated_42"
    using authenticate_sends_and_response_assigns
      [where s = authenticated_42 and c = sample_codec and body = "[1]" and t = 1,
        THEN conjunct2, THEN conjunct2, THEN conjunct2, THEN conjunct2, THEN mp, OF d'] .
  then have e: "processDatagramData sample_codec [2, 1] authenticated_42
       = authenticated_42\<lparr>fired := fired authenticated_42 @ [AuthError 1]\<rparr>"
    by (simp add: fire_def) (simp add: authenticated_42_eq all_events_def)
  have f: "sessionId (step sample_codec (Datagram [1, 42]) ?s) \<noteq> sessionId ?s"
    by (simp add: c) (simp add: connected_client_eq)
  from n a k b f d c d' e show ?thesis by blast
qed

text \<open>
  Claim C5, as the code has it. \<open>joinRoom\<close> fails with NotConnected when the session is not
  connected, and with NotAuthenticated when it is connected and holds no session identifier
  (or the identifier 0); either way nothing is sent and nothing changes. In a connected
  session that a run of the client has reached and that holds a session identifier other
  than 0, it records the room key as the current room key, before any response, and makes
  exactly one datagram write, the JOIN_ROOM_REQUEST packet of the room key. The dispatch of
  a JOIN_ROOM_RESPONSE packet calls \<open>onJoinedRoom\<close> with the roster it carries and changes
  no field of the session: the room key stays what \<open>joinRoom\<close> recorded.
\<close>

theorem joinRoom_records_key_and_sends:
  "(\<not> connected s \<longrightarrow> joinRoom c ack roomKey s = (Some NotConnected, s))
   \<and> (connected s \<and> falsy_bigint (sessionId s) \<longrightarrow>
        joinRoom c ack roomKey s = (Some NotAuthenticated, s))
   \<and> (s = run c acts (new_client ev) \<and> connected s \<and> \<not> falsy_bigint (sessionId s) \<longrightarrow>
        joinRoom c ack roomKey s =
          (if ack then None else Some Rejected,
           s\<lparr>currentRoomKey := Some roomKey,
             wt := wt s @ [Write (PacketType_value JOIN_ROOM_REQUEST
                                  # toBinary_JoinRoomRequest c (JoinRoomRequest roomKey))]\<rparr>))
   \<and> (fromBinary_JoinRoomResponse c body = Some users \<longrightarrow>
        processDatagramData c (PacketType_value JOIN_ROOM_RESPONSE # body) s =
          fire (onJoinedRoom (events s)) (JoinedRoom users) s
        \<and> session (processDatagramData c (PacketType_value JOIN_ROOM_RESPONSE # body) s)
            = session s)"
proof (intro conjI impI)
  assume "\<not> connected s"
  then show "joinRoom c ack roomKey s = (Some NotConnected, s)"
    by (simp add: joinRoom_def)
next
  assume "connected s \<and> falsy_bigint (sessionId s)"
  then show "joinRoom c ack roomKey s = (Some NotAuthenticated, s)"
    by (simp add: joinRoom_def)
next
  assume r: "s = run c acts (new_client ev) \<and> connected s \<and> \<not> falsy_bigint (sessionId s)"
  then have s: "s = run c acts (new_client ev)" and k: "connected s"
    and i: "\<not> falsy_bigint (sessionId s)"
    by blast+
  have w: "datagramWriter s \<noteq> None"
    using k unfolding s by (rule connected_run_writer)
  show "joinRoom c ack roomKey s =
          (if ack then None else Some Rejected,
           s\<lparr>currentRoomKey := Some roomKey,
             wt := wt s @ [Write (PacketType_value JOIN_ROOM_REQUEST
                                  # toBinary_JoinRoomRequest c (JoinRoomRequest roomKey))]\<rparr>)"
    using k w i by (simp add: joinRoom_authenticated)
next
  assume d: "fromBinary_JoinRoomResponse c body = Some users"
  then show e: "processDatagramData c (PacketType_value JOIN_ROOM_RESPONSE # body) s =
          fire (onJoinedRoom (events s)) (JoinedRoom users) s"
    by (simp add: control_packet join_room_response_packet handleJoinRoomResponse_def)
  show "session (processDatagramData c (PacketType_value JOIN_ROOM_RESPONSE # body) s)
            = session s"
    unfolding e by (simp add: session_def)
qed

theorem joinRoom_records_key_and_sends_witness:
  "\<not> connected (new_client all_events)
   \<and> joinRoom sample_codec True ''lobby'' (new_client all_events)
       = (Some NotConnected, new_client all_events)
   \<and> connected session_0 \<and> falsy_bigint (sessionId session_0)
   \<and> joinRoom sample_codec True ''lobby'' session_0 = (Some NotAuthenticated, session_0)
   \<and> authenticated_42
       = run sample_codec [Connect True True, Datagram [1, 42]] (new_client all_events)
   \<and> connected authenticated_42 \<and> \<not> falsy_bigint (sessionId authenticated_42)
   \<and> joinRoom sample_codec True ''lobby'' authenticated_42
       = (None, authenticated_42\<lparr>currentRoomKey := Some ''lobby'',
            wt := wt authenticated_42 @ [Write [3, 108, 111, 98, 98, 121]]\<rparr>)
   \<and> fromBinary_JoinRoomResponse sample_codec [1, 2] = Some [sample_user 1, sample_user 2]
   \<and> processDatagramData sample_codec [4, 1, 2] in_room_42
       = in_room_42\<lparr>fired := fired in_room_42 @ [JoinedRoom [sample_user 1, sample_user 2]]\<rparr>"
proof -
  note t = joinRoom_records_key_and_sends [where c = sample_codec and ack = True
      and roomKey = "''lobby''"]
  have n: "\<not> connected (new_client all_events)"
    by (simp add: new_client_def)
  have a: "joinRoom sample_codec True ''lobby'' (new_client all_events)
       = (Some NotConnected, new_client all_events)"
    using t [where s = "new_client all_events", THEN conjunct1, THEN mp, OF n] .
  have z: "connected session_0 \<and> falsy_bigint (sessionId session_0)"
    by (simp add: session_0_eq)
  have b: "joinRoom sample_codec True ''lobby'' session_0 = (Some NotAuthenticated, session_0)"
    using t [where s = session_0, THEN conjunct2, THEN conjunct1, THEN mp, OF z] .
  have k: "authenticated_42
       = run sample_codec [Connect True True, Datagram [1, 42]] (new_client all_events)
      \<and> connected authenticated_42 \<and> \<not> falsy_bigint (sessionId authenticated_42)"
  proof
    show "authenticated_42
       = run sample_codec [Connect True True, Datagram [1, 42]] (new_client all_events)"
      by (simp add: authenticated_42_def)
    show "connected authenticated_42 \<and> \<not> falsy_bigint (sessionId authenticated_42)"
      by (simp add: authenticated_42_eq)
  qed
  have "joinRoom sample_codec True ''lobby'' authenticated_42
       = (if True then None else Some Rejected,
          authenticated_42\<lparr>currentRoomKey := Some ''lobby'',
            wt := wt authenticated_42 @ [Write (PacketType_value JOIN_ROOM_REQUEST
               # toBinary_JoinRoomRequest sample_codec (JoinRoomRequest ''lobby''))]\<rparr>)"
    using t [where s = authenticated_42 and acts = "[Connect True True, Datagram [1, 42]]"
        and ev = all_events, THEN conjunct2, THEN conjunct2, THEN conjunct1, THEN mp, OF k] .
  then have c: "joinRoom sample_codec True ''lobby'' authenticated_42
       = (None, authenticated_42\<lparr>currentRoomKey := Some ''lobby'',
            wt := wt authenticated_42 @ [Write [3, 108, 111, 98, 98, 121]]\<rparr>)"
    by (simp add: sample_codec_def)
  have d: "fromBinary_JoinRoomResponse sample_codec [1, 2] = Some [sample_user 1, sample_user 2]"
    by (simp add: sample_codec_def)
  have "processDatagramData sample_codec (PacketType_value JOIN_ROOM_RESPONSE # [1, 2]) in_room_42
       = fire (onJoinedRoom (events in_room_42)) (JoinedRoom [sample_user 1, sample_user 2])
           in_room_42"
    using t [where s = in_room_42 and body = "[1, 2]"
        and users = "[sample_user 1, sample_user 2]",
        THEN conjunct2, THEN conjunct2, THEN conjunct2, THEN mp, OF d, THEN conjunct1] .
  then have e: "processDatagramData sample_codec [4, 1, 2] in_room_42
       = in_room_42\<lparr>fired := fired in_room_42 @ [JoinedRoom [sample_user 1, sample_user 2]]\<rparr>"
    by (simp add: fire_def) (simp add: in_room_42_eq all_events_def)
  from n a z b k c d e show ?thesis by blast
qed

text \<open>
  Claim C5 as the spec states it fails. In a session that never connected the precondition
  failure of \<open>joinRoom\<close> is NotConnected, not NotAuthenticated. And a JOIN_ROOM_RESPONSE
  does not bring the session into a room: dispatched to an authenticated session that never
  asked to join, it leaves the room key absent, and \<open>sendVoiceData\<close> still fails with
  NotInRoom.
\<close>

theorem joinRoom_not_connected_and_response_joins_nothing:
  "joinRoom sample_codec True ''lobby'' (new_client all_events)
     = (Some NotConnected, new_client all_events)
   \<and> currentRoomKey (processDatagramData sample_codec [4, 1, 2] authenticated_42) = None
   \<and> fst (sendVoiceData True [1, 2, 3]
            (processDatagramData sample_codec [4, 1, 2] authenticated_42)) = Some NotInRoom"
  by (simp add: joinRoom_def new_client_def authenticated_42_eq sample_codec_def
      control_packet join_room_response_packet handleJoinRoomResponse_def fire_def
      all_events_def sendVoiceData_def)

subsection \<open>Control packets never reach the voice callback\<close>

lemma voice_fired_fire:
  "\<not> is_VoiceData e \<Longrightarrow>
   filter is_VoiceData (fired (fire g e s)) = filter is_VoiceData (fired s)"
  by (simp add: fire_def)

lemma voice_fired_processProtobufData:
  "filter is_VoiceData (fired (processProtobufData c data s)) = filter is_VoiceData (fired s)"
  by (simp add: processProtobufData_def handler_defs Let_def voice_fired_fire
      split: option.splits)

text \<open>
  Claim C6. A datagram whose first byte is one of 0 to 6 is handled as a control packet:
  its dispatch is that of \<open>processProtobufData\<close>, and it adds no call of \<open>onVoiceData\<close>.
  A datagram whose first byte is 0xFF and that has fewer than 9 bytes is dropped: the
  client is left exactly as it was, so nothing is delivered to \<open>onVoiceData\<close> and the
  bytes are not tried as a control packet (no handler runs and no unknown-type warning is
  written).
\<close>

theorem datagram_dispatch_separates_voice_and_control:
  "(data \<noteq> [] \<and> hd data \<le> 6 \<longrightarrow>
      processDatagramData c data s = processProtobufData c data s
      \<and> filter is_VoiceData (fired (processDatagramData c data s))
          = filter is_VoiceData (fired s))
   \<and> (data \<noteq> [] \<and> hd data = 0xFF \<and> length data < 9 \<longrightarrow>
      processDatagramData c data s = s)"
proof (intro conjI impI)
  assume a: "data \<noteq> [] \<and> hd data \<le> 6"
  then obtain t body where d: "data = t # body" and t: "t \<le> 6"
    by (cases data) auto
  from t have "t \<noteq> 0xFF" by auto
  then show e: "processDatagramData c data s = processProtobufData c data s"
    by (simp add: d control_packet)
  show "filter is_VoiceData (fired (processDatagramData c data s))
          = filter is_VoiceData (fired s)"
    unfolding e by (rule voice_fired_processProtobufData)
next
  assume "data \<noteq> [] \<and> hd data = 0xFF \<and> length data < 9"
  then obtain rest where "data = 0xFF # rest" and "length rest < 8"
    by (cases data) auto
  then show "processDatagramData c data s = s"
    by (simp add: voice_branch_short)
qed

theorem datagram_dispatch_separates_voice_and_control_witness:
  "[6, 0, 0, 0, 0, 0, 0, 0, 2] \<noteq> ([] :: bytes) \<and> hd [6, 0, 0, 0, 0, 0, 0, 0, 2 :: byte] \<le> 6
   \<and> processDatagramData sample_codec [6, 0, 0, 0, 0, 0, 0, 0, 2] in_room_42
       = processProtobufData sample_codec [6, 0, 0, 0, 0, 0, 0, 0, 2] in_room_42
   \<and> filter is_VoiceData
        (fired (processDatagramData sample_codec [6, 0, 0, 0, 0, 0, 0, 0, 2] in_room_42)) = []
   \<and> [0xFF, 0, 0, 0, 0, 0, 0, 42] \<noteq> ([] :: bytes)
   \<and> hd [0xFF, 0, 0, 0, 0, 0, 0, 42 :: byte] = 0xFF
   \<and> length [0xFF, 0, 0, 0, 0, 0, 0, 42 :: byte] < 9
   \<and> processDatagramData sample_codec [0xFF, 0, 0, 0, 0, 0, 0, 42] in_room_42 = in_room_42"
proof -
  have h1: "[6, 0, 0, 0, 0, 0, 0, 0, 2] \<noteq> ([] :: bytes)
      \<and> hd [6, 0, 0, 0, 0, 0, 0, 0, 2 :: byte] \<le> 6"
    by simp
  have h2: "[0xFF, 0, 0, 0, 0, 0, 0, 42] \<noteq> ([] :: bytes)
      \<and> hd [0xFF, 0, 0, 0, 0, 0, 0, 42 :: byte] = 0xFF
      \<and> length [0xFF, 0, 0, 0, 0, 0, 0, 42 :: byte] < 9"
    by simp
  note a = datagram_dispatch_separates_voice_and_control
    [where data = "[6, 0, 0, 0, 0, 0, 0, 0, 2]" and c = sample_codec and s = in_room_42,
      THEN conjunct1, THEN mp, OF h1]
  note b = datagram_dispatch_separates_voice_and_control
    [where data = "[0xFF, 0, 0, 0, 0, 0, 0, 42]" and c = sample_codec and s = in_room_42,
      THEN conjunct2, THEN mp, OF h2]
  have "filter is_VoiceData
        (fired (processDatagramData sample_codec [6, 0, 0, 0, 0, 0, 0, 0, 2] in_room_42)) = []"
    using a [THEN conjunct2] by (simp add: in_room_42_eq)
  with a b h1 h2 show ?thesis by blast
qed

subsection \<open>Closing\<close>

lemma close_without_writer:
  "datagramWriter s = None \<Longrightarrow>
   close closes s =
     (None, s\<lparr>wt := wt s @ [CloseTransport], connected := False, sessionId := None,
              username := None, currentRoomKey := None\<rparr>)"
  by (simp add: close_def)

lemma close_with_writer:
  "datagramWriter s \<noteq> None \<Longrightarrow>
   close True s =
     (None, s\<lparr>wt := wt s @ [CloseWriter, CloseTransport], datagramWriter := None,
              connected := False, sessionId := None, username := None,
              currentRoomKey := None\<rparr>)"
  by (simp add: close_def)

text \<open>
  A \<open>close\<close> that completes. When no writer is held, or the writer's own \<open>close()\<close>
  resolves, \<open>close\<close> ends without an exception, leaves the session identifier, the username and the room key
  absent together, gives the writer up (after closing it, when one was held), closes the
  transport and leaves the session not connected. A second \<open>close\<close> from that state,
  whatever the transport answers, raises nothing and leaves every field of the session as
  it is; it calls no callback and only calls the transport's \<open>close()\<close> once more.
\<close>

theorem close_resets_session_and_is_idempotent:
  "datagramWriter s = None \<or> closes \<longrightarrow>
     fst (close closes s) = None
     \<and> sessionId (snd (close closes s)) = None
     \<and> username (snd (close closes s)) = None
     \<and> currentRoomKey (snd (close closes s)) = None
     \<and> datagramWriter (snd (close closes s)) = None
     \<and> connected (snd (close closes s)) = False
     \<and> wt (snd (close closes s)) =
         wt s @ (if datagramWriter s = None then [] else [CloseWriter]) @ [CloseTransport]
     \<and> fst (close again (snd (close closes s))) = None
     \<and> session (snd (close again (snd (close closes s)))) = session (snd (close closes s))
     \<and> snd (close again (snd (close closes s))) =
         (snd (close closes s))\<lparr>wt := wt (snd (close closes s)) @ [CloseTransport]\<rparr>"
proof
  assume h: "datagramWriter s = None \<or> closes"
  show "fst (close closes s) = None
     \<and> sessionId (snd (close closes s)) = None
     \<and> username (snd (close closes s)) = None
     \<and> currentRoomKey (snd (close closes s)) = None
     \<and> datagramWriter (snd (close closes s)) = None
     \<and> connected (snd (close closes s)) = False
     \<and> wt (snd (close closes s)) =
         wt s @ (if datagramWriter s = None then [] else [CloseWriter]) @ [CloseTransport]
     \<and> fst (close again (snd (close closes s))) = None
     \<and> session (snd (close again (snd (close closes s)))) = session (snd (close closes s))
     \<and> snd (close again (snd (close closes s))) =
         (snd (close closes s))\<lparr>wt := wt (snd (close closes s)) @ [CloseTransport]\<rparr>"
  proof (cases "datagramWriter s = None")
    case True
    then show ?thesis
      by (simp add: close_without_writer session_def)
  next
    case False
    with h have "closes" by simp
    with False show ?thesis
      by (simp add: close_with_writer close_without_writer session_def)
  qed
qed

theorem close_resets_session_and_is_idempotent_witness:
  "(datagramWriter in_room_42 = None \<or> True)
   \<and> close True in_room_42 =
       (None,
        \<lparr>datagramWriter = None, sessionId = None, username = None, currentRoomKey = None,
         events = all_events, connected = False,
         wt = [GetWriter, Write [3, 108, 111, 98, 98, 121], CloseWriter, CloseTransport],
         fired = [Connected, AuthSuccess 42], console = []\<rparr>)
   \<and> session (snd (close True in_room_42)) = (None, None, None, None, False)
   \<and> fst (close False (snd (close True in_room_42))) = None
   \<and> session (snd (close False (snd (close True in_room_42)))) = (None, None, None, None, False)"
proof -
  have h: "datagramWriter in_room_42 = None \<or> True"
    by simp
  note t = close_resets_session_and_is_idempotent
    [where s = in_room_42 and closes = True and again = False, THEN mp, OF h]
  have e: "close True in_room_42 =
       (None,
        \<lparr>datagramWriter = None, sessionId = None, username = None, currentRoomKey = None,
         events = all_events, connected = False,
         wt = [GetWriter, Write [3, 108, 111, 98, 98, 121], CloseWriter, CloseTransport],
         fired = [Connected, AuthSuccess 42], console = []\<rparr>)"
    by (simp add: in_room_42_eq close_def)
  have s: "session (snd (close True in_room_42)) = (None, None, None, None, False)"
    using t by (simp add: session_def)
  have "fst (close False (snd (close True in_room_42))) = None"
    and "session (snd (close False (snd (close True in_room_42))))
        = session (snd (close True in_room_42))"
    using t by blast+
  with h e s show ?thesis by simp
qed

lemma dropped_alice_eq:
  "dropped_alice =
     \<lparr>datagramWriter = Some Writer, sessionId = Some 42, username = Some ''alice'',
      currentRoomKey = Some ''lobby'', events = all_events, connected = False,
      wt = [GetWriter, Write [0, 97, 108, 105, 99, 101], Write [3, 108, 111, 98, 98, 121]],
      fired = [Connected, AuthSuccess 42, ConnectionError ClosedAbruptly], console = []\<rparr>"
  by (simp add: dropped_alice_def run_def new_client_def all_events_def sample_codec_def
      connect_def authenticate_def processDatagramData_def processProtobufData_def
      handleAuthResponseSuccess_def joinRoom_def write_datagram_def wt_closed_def fire_def)

text \<open>
  Claim C7 fails on the code where the writer's own \<open>close()\<close> rejects, as it does on the
  errored stream of a connection that was lost. The exception leaves \<open>close\<close> at its first
  \<open>await\<close>: the session identifier 42, the username, the room key and the writer are all
  kept, and the transport's \<open>close()\<close> is never called. Calling \<open>close\<close> again does the
  same, so the session is never reset.
\<close>

theorem close_rejected_resets_nothing:
  "close False dropped_alice =
     (Some Rejected,
      \<lparr>datagramWriter = Some Writer, sessionId = Some 42, username = Some ''alice'',
       currentRoomKey = Some ''lobby'', events = all_events, connected = False,
       wt = [GetWriter, Write [0, 97, 108, 105, 99, 101], Write [3, 108, 111, 98, 98, 121],
             CloseWriter],
       fired = [Connected, AuthSuccess 42, ConnectionError ClosedAbruptly], console = []\<rparr>)
   \<and> session (snd (close False dropped_alice)) = session dropped_alice
   \<and> CloseTransport \<notin> set (wt (snd (close False dropped_alice)))
   \<and> fst (close False (snd (close False dropped_alice))) = Some Rejected
   \<and> session (snd (close False (snd (close False dropped_alice)))) = session dropped_alice"
  by (simp add: dropped_alice_eq close_def session_def)

text \<open>
  Claim C8. A control payload of zero length is dropped by an early return: the client is
  left exactly as it was, from a stream and from a datagram alike. A control payload whose
  first byte is none of the five types the server sends (AUTH_RESPONSE_SUCCESS,
  AUTH_RESPONSE_ERROR, JOIN_ROOM_RESPONSE, USER_JOINED, USER_LEFT) is dropped with one
  \<open>console.warn\<close> naming the byte, and nothing else changes. The dispatch functions have no
  exception to give to the read loop; in both cases no callback is called, nothing is
  written to the transport, and every field of the session is unchanged.
\<close>

theorem empty_and_unknown_packets_dropped:
  "processProtobufData c [] s = s
   \<and> processDatagramData c [] s = s
   \<and> (data \<noteq> []
        \<and> hd data \<notin> PacketType_value `
             {AUTH_RESPONSE_SUCCESS, AUTH_RESPONSE_ERROR, JOIN_ROOM_RESPONSE, USER_JOINED,
              USER_LEFT} \<longrightarrow>
        processProtobufData c data s = s\<lparr>console := console s @ [UnknownPacketType (hd data)]\<rparr>
        \<and> (hd data \<noteq> 0xFF \<longrightarrow>
             processDatagramData c data s
               = s\<lparr>console := console s @ [UnknownPacketType (hd data)]\<rparr>)
        \<and> fired (processProtobufData c data s) = fired s
        \<and> wt (processProtobufData c data s) = wt s
        \<and> session (processProtobufData c data s) = session s)"
proof (intro conjI impI)
  show "processProtobufData c [] s = s"
    by (simp add: processProtobufData_def)
  show "processDatagramData c [] s = s"
    by (simp add: processDatagramData_def processProtobufData_def)
next
  assume "data \<noteq> []
        \<and> hd data \<notin> PacketType_value `
             {AUTH_RESPONSE_SUCCESS, AUTH_RESPONSE_ERROR, JOIN_ROOM_RESPONSE, USER_JOINED,
              USER_LEFT}"
  then obtain t body where d: "data = t # body" and t: "t \<notin> {1, 2, 4, 5, 6}"
    by (cases data) auto
  from t show e: "processProtobufData c data s
      = s\<lparr>console := console s @ [UnknownPacketType (hd data)]\<rparr>"
    by (simp add: d unknown_packet)
  show "fired (processProtobufData c data s) = fired s"
    "wt (processProtobufData c data s) = wt s"
    "session (processProtobufData c data s) = session s"
    unfolding e by (simp_all add: session_def)
  assume "hd data \<noteq> 0xFF"
  then show "processDatagramData c data s
      = s\<lparr>console := console s @ [UnknownPacketType (hd data)]\<rparr>"
    using e by (simp add: d control_packet)
qed

theorem empty_and_unknown_packets_dropped_witness:
  "processProtobufData sample_codec [] in_room_42 = in_room_42
   \<and> [3, 1] \<noteq> ([] :: bytes)
   \<and> hd [3, 1 :: byte] \<notin> PacketType_value `
        {AUTH_RESPONSE_SUCCESS, AUTH_RESPONSE_ERROR, JOIN_ROOM_RESPONSE, USER_JOINED, USER_LEFT}
   \<and> hd [3, 1 :: byte] \<noteq> 0xFF
   \<and> processProtobufData sample_codec [3, 1] in_room_42
       = in_room_42\<lparr>console := [UnknownPacketType 3]\<rparr>
   \<and> processDatagramData sample_codec [3, 1] in_room_42
       = in_room_42\<lparr>console := [UnknownPacketType 3]\<rparr>"
proof -
  note t = empty_and_unknown_packets_dropped
    [where c = sample_codec and s = in_room_42 and data = "[3, 1]"]
  have h: "[3, 1] \<noteq> ([] :: bytes)
     \<and> hd [3, 1 :: byte] \<notin> PacketType_value `
        {AUTH_RESPONSE_SUCCESS, AUTH_RESPONSE_ERROR, JOIN_ROOM_RESPONSE, USER_JOINED, USER_LEFT}"
    by simp
  have g: "hd [3, 1 :: byte] \<noteq> 0xFF"
    by simp
  note u = t [THEN conjunct2, THEN conjunct2, THEN mp, OF h]
  have a: "processProtobufData sample_codec [] in_room_42 = in_room_42"
    using t [THEN conjunct1] .
  have b: "processProtobufData sample_codec [3, 1] in_room_42
       = in_room_42\<lparr>console := [UnknownPacketType 3]\<rparr>"
    using u [THEN conjunct1] by (simp add: in_room_42_eq)
  have c: "processDatagramData sample_codec [3, 1] in_room_42
       = in_room_42\<lparr>console := [UnknownPacketType 3]\<rparr>"
    using u [THEN conjunct2, THEN conjunct1, THEN mp, OF g] by (simp add: in_room_42_eq)
  from a h g b c show ?thesis by blast
qed

text \<open>
  Claim C9. When a connected session is given the session identifier 0 by an
  AUTH_RESPONSE_SUCCESS packet, the identifier is stored and \<open>onAuthSuccess\<close> is called
  with 0, and from then on \<open>joinRoom\<close>, \<open>leaveRoom\<close> and \<open>sendVoiceData\<close> each fail with
  NotAuthenticated and change nothing: the test \<open>!this.sessionId\<close> takes \<open>0n\<close> for an
  absent identifier.
\<close>

theorem session_id_zero_counts_as_absent:
  assumes "connected s" and "fromBinary_AuthResponseSuccess c body = Some 0"
    and "s' = processDatagramData c (PacketType_value AUTH_RESPONSE_SUCCESS # body) s"
  shows "s' = fire (onAuthSuccess (events s)) (AuthSuccess 0) (s\<lparr>sessionId := Some 0\<rparr>)
    \<and> sessionId s' = Some 0
    \<and> joinRoom c ack roomKey s' = (Some NotAuthenticated, s')
    \<and> leaveRoom s' = (Some NotAuthenticated, s')
    \<and> sendVoiceData ack audio s' = (Some NotAuthenticated, s')"
proof -
  have e: "s' = fire (onAuthSuccess (events s)) (AuthSuccess 0) (s\<lparr>sessionId := Some 0\<rparr>)"
    using assms(2,3)
    by (simp add: control_packet auth_success_packet handleAuthResponseSuccess_def)
  then have i: "sessionId s' = Some 0" and k: "connected s'"
    using assms(1) by simp_all
  from i k have "joinRoom c ack roomKey s' = (Some NotAuthenticated, s')"
    and "leaveRoom s' = (Some NotAuthenticated, s')"
    and "sendVoiceData ack audio s' = (Some NotAuthenticated, s')"
    by (simp_all add: joinRoom_def leaveRoom_def sendVoiceData_def)
  with e i show ?thesis by blast
qed

theorem session_id_zero_counts_as_absent_witness:
  "connected (run sample_codec [Connect True True] (new_client all_events))
   \<and> fromBinary_AuthResponseSuccess sample_codec [0] = Some 0
   \<and> session_0 = processDatagramData sample_codec [1, 0]
        (run sample_codec [Connect True True] (new_client all_events))
   \<and> sessionId session_0 = Some 0
   \<and> fired session_0 = [Connected, AuthSuccess 0]
   \<and> joinRoom sample_codec True ''lobby'' session_0 = (Some NotAuthenticated, session_0)
   \<and> leaveRoom session_0 = (Some NotAuthenticated, session_0)
   \<and> sendVoiceData True [1, 2, 3] session_0 = (Some NotAuthenticated, session_0)"
proof -
  let ?s = "run sample_codec [Connect True True] (new_client all_events)"
  have k: "connected ?s"
    by (simp add: connected_client_eq)
  have d: "fromBinary_AuthResponseSuccess sample_codec [0] = Some 0"
    by (simp add: sample_codec_def)
  have r: "session_0
      = processDatagramData sample_codec (PacketType_value AUTH_RESPONSE_SUCCESS # [0]) ?s"
    by (simp add: session_0_def run_def)
  note t = session_id_zero_counts_as_absent [OF k d r, of True "''lobby''" "[1, 2, 3]"]
  have f: "fired session_0 = [Connected, AuthSuccess 0]"
    by (simp add: session_0_eq)
  have r': "session_0 = processDatagramData sample_codec [1, 0] ?s"
    using r by simp
  from k d r' f t show ?thesis by blast
qed

text \<open>
  Claim C10. For a USER_LEFT packet whose payload has 8 bytes or more, \<open>onUserLeft\<close> is
  called with the big-endian number of the whole payload: the number of its first 8 bytes,
  shifted left by 8 bits for every further byte, plus the number of the further bytes. A
  payload shorter than 8 bytes is dropped: the client is left exactly as it was. The
  handler has no exception to give.
\<close>

theorem user_left_reads_whole_payload:
  "(length payload \<ge> 8 \<longrightarrow>
      handleUserLeft payload s
        = fire (onUserLeft (events s)) (UserLeft (bytesToBigInt payload)) s
      \<and> processProtobufData c (PacketType_value USER_LEFT # payload) s
        = fire (onUserLeft (events s)) (UserLeft (bytesToBigInt payload)) s
      \<and> bytesToBigInt payload
        = bytesToBigInt (take 8 payload) * 256 ^ (length payload - 8)
          + bytesToBigInt (drop 8 payload))
   \<and> (length payload < 8 \<longrightarrow>
      handleUserLeft payload s = s
      \<and> processProtobufData c (PacketType_value USER_LEFT # payload) s = s)"
proof (intro conjI impI)
  assume l: "length payload \<ge> 8"
  then show "handleUserLeft payload s
        = fire (onUserLeft (events s)) (UserLeft (bytesToBigInt payload)) s"
    by (simp add: handleUserLeft_def)
  from l show "processProtobufData c (PacketType_value USER_LEFT # payload) s
        = fire (onUserLeft (events s)) (UserLeft (bytesToBigInt payload)) s"
    by (simp add: user_left_packet handleUserLeft_def)
  have "bytesToBigInt (take 8 payload @ drop 8 payload)
        = bytesToBigInt (take 8 payload) * 256 ^ length (drop 8 payload)
          + bytesToBigInt (drop 8 payload)"
    by (rule bytesToBigInt_append)
  then show "bytesToBigInt payload
        = bytesToBigInt (take 8 payload) * 256 ^ (length payload - 8)
          + bytesToBigInt (drop 8 payload)"
    by simp
next
  assume l: "length payload < 8"
  then show "handleUserLeft payload s = s"
    by (simp add: handleUserLeft_def)
  from l show "processProtobufData c (PacketType_value USER_LEFT # payload) s = s"
    by (simp add: user_left_packet handleUserLeft_def)
qed

theorem user_left_reads_whole_payload_witness:
  "length [0, 0, 0, 0, 0, 0, 0, 1, 2 :: byte] \<ge> 8
   \<and> processProtobufData sample_codec [6, 0, 0, 0, 0, 0, 0, 0, 1, 2] in_room_42
       = in_room_42\<lparr>fired := fired in_room_42 @ [UserLeft 258]\<rparr>
   \<and> bytesToBigInt (take 8 [0, 0, 0, 0, 0, 0, 0, 1, 2]) = 1
   \<and> length [0, 0, 0, 0, 0, 0, 2 :: byte] < 8
   \<and> processProtobufData sample_codec [6, 0, 0, 0, 0, 0, 0, 2] in_room_42 = in_room_42"
proof -
  have l: "length [0, 0, 0, 0, 0, 0, 0, 1, 2 :: byte] \<ge> 8"
    and l': "length [0, 0, 0, 0, 0, 0, 2 :: byte] < 8"
    by simp_all
  have n: "bytesToBigInt [0, 0, 0, 0, 0, 0, 0, 1, 2] = 258"
    and n': "bytesToBigInt (take 8 [0, 0, 0, 0, 0, 0, 0, 1, 2]) = 1"
    by (simp_all add: bytesToBigInt_Cons bytesToBigInt_Nil)
  have "processProtobufData sample_codec (PacketType_value USER_LEFT # [0, 0, 0, 0, 0, 0, 0, 1, 2])
          in_room_42
       = fire (onUserLeft (events in_room_42))
           (UserLeft (bytesToBigInt [0, 0, 0, 0, 0, 0, 0, 1, 2])) in_room_42"
    using user_left_reads_whole_payload
      [where payload = "[0, 0, 0, 0, 0, 0, 0, 1, 2]" and c = sample_codec and s = in_room_42,
        THEN conjunct1, THEN mp, OF l, THEN conjunct2, THEN conjunct1] .
  then have a: "processProtobufData sample_codec [6, 0, 0, 0, 0, 0, 0, 0, 1, 2] in_room_42
       = in_room_42\<lparr>fired := fired in_room_42 @ [UserLeft 258]\<rparr>"
    by (simp add: n fire_def) (simp add: in_room_42_eq all_events_def)
  have "processProtobufData sample_codec (PacketType_value USER_LEFT # [0, 0, 0, 0, 0, 0, 2])
          in_room_42 = in_room_42"
    using user_left_reads_whole_payload
      [where payload = "[0, 0, 0, 0, 0, 0, 2]" and c = sample_codec and s = in_room_42,
        THEN conjunct2, THEN mp, OF l', THEN conjunct2] .
  then have b: "processProtobufData sample_codec [6, 0, 0, 0, 0, 0, 0, 2] in_room_42 = in_room_42"
    by simp
  from l a n' l' b show ?thesis by blast
qed

end
